theory Spec2Isabelle
  imports Main "HOL-Library.Word"
begin

section \<open>Go values the provider works with\<close>

text \<open>
  A Go \<open>error\<close> is kept as its text, which is all the provider reads of it
  (\<open>err.Error()\<close>, or \<open>%s\<close> in a format string). Go's \<open>int\<close> and \<open>int64\<close> are 64-bit
  two's complement words (a 64-bit platform), read through \<open>sint\<close>.
\<close>

type_synonym error = string

type_synonym go_int = "64 word"

subsection \<open>strconv: decimal rendering\<close>

text \<open>The digit table of \<open>strconv\<close>, read at a digit below ten.\<close>

definition digits :: string where
  "digits = ''0123456789''"

definition digit :: "nat \<Rightarrow> char" where
  "digit d = digits ! d"

fun decimal :: "nat \<Rightarrow> string" where
  "decimal n = (if n < 10 then [digit n] else decimal (n div 10) @ [digit (n mod 10)])"

declare decimal.simps [simp del]

text \<open>\<open>strconv.FormatInt(i, 10)\<close>: a minus sign, then the digits of the magnitude.\<close>

definition FormatInt10 :: "int \<Rightarrow> string" where
  "FormatInt10 i = (if i < 0 then CHR ''-'' # decimal (nat (- i)) else decimal (nat i))"

definition strconv_FormatInt :: "go_int \<Rightarrow> string" where
  "strconv_FormatInt i = FormatInt10 (sint i)"

definition strconv_Itoa :: "go_int \<Rightarrow> string" where
  "strconv_Itoa i = strconv_FormatInt i"

text \<open>\<open>len(s)\<close> of a Go string, as a Go \<open>int\<close>.\<close>

definition go_len :: "string \<Rightarrow> go_int" where
  "go_len s = of_nat (length s)"

text \<open>\<open>fmt.Sprintf("%t", b)\<close>.\<close>

definition Sprintf_t :: "bool \<Rightarrow> string" where
  "Sprintf_t b = (if b then ''true'' else ''false'')"

section \<open>The plugin framework's values\<close>

subsection \<open>Diagnostics\<close>

datatype Severity = SeverityError | SeverityWarning

record Diagnostic =
  Severity :: Severity
  Summary :: string
  Detail :: string

type_synonym Diagnostics = "Diagnostic list"

definition NewErrorDiagnostic :: "string \<Rightarrow> string \<Rightarrow> Diagnostic" where
  "NewErrorDiagnostic summary detail =
     \<lparr>Severity = SeverityError, Summary = summary, Detail = detail\<rparr>"

text \<open>\<open>Diagnostics.Append\<close> skips a diagnostic the collection already holds.\<close>

fun Append :: "Diagnostics \<Rightarrow> Diagnostics \<Rightarrow> Diagnostics" where
  "Append diags [] = diags"
| "Append diags (d # ds) = Append (if d \<in> set diags then diags else diags @ [d]) ds"

definition AddError :: "Diagnostics \<Rightarrow> string \<Rightarrow> string \<Rightarrow> Diagnostics" where
  "AddError diags summary detail = Append diags [NewErrorDiagnostic summary detail]"

definition HasError :: "Diagnostics \<Rightarrow> bool" where
  "HasError diags = list_ex (\<lambda>d. Severity d = SeverityError) diags"

subsection \<open>Attribute values\<close>

text \<open>
  \<open>types.Int64\<close>, \<open>types.Bool\<close> and \<open>types.String\<close> are structs of two flags and a Go
  value. A composite literal \<open>types.Int64{Value: v}\<close> leaves both flags false, and
  \<open>types.Int64{Null: true}\<close> leaves the value at Go's zero.
\<close>

record 'a attr =
  Unknown :: bool
  Null :: bool
  Value :: 'a

type_synonym types_Int64 = "go_int attr"
type_synonym types_Bool = "bool attr"
type_synonym types_String = "string attr"

text \<open>The interface \<open>attr.Value\<close>, over the three types the schema declares.\<close>

datatype attr_Value =
  Int64Value types_Int64
| BoolValue types_Bool
| StringValue types_String

text \<open>
  \<open>tfsdk.ValueAs(ctx, val, &target)\<close> fills \<open>target\<close> when \<open>val\<close> has the target's type
  and reports an error diagnostic otherwise, leaving \<open>target\<close> at its zero value.
\<close>

definition conversion_error :: Diagnostic where
  "conversion_error = NewErrorDiagnostic ''Value Conversion Error'' ''''"

definition ValueAs_Int64 :: "attr_Value \<Rightarrow> Diagnostics \<times> types_Int64" where
  "ValueAs_Int64 val =
     (case val of
        Int64Value i \<Rightarrow> ([], i)
      | _ \<Rightarrow> ([conversion_error], \<lparr>Unknown = False, Null = False, Value = 0\<rparr>))"

definition ValueAs_Bool :: "attr_Value \<Rightarrow> Diagnostics \<times> types_Bool" where
  "ValueAs_Bool val =
     (case val of
        BoolValue b \<Rightarrow> ([], b)
      | _ \<Rightarrow> ([conversion_error], \<lparr>Unknown = False, Null = False, Value = False\<rparr>))"

definition ValueAs_String :: "attr_Value \<Rightarrow> Diagnostics \<times> types_String" where
  "ValueAs_String val =
     (case val of
        StringValue s \<Rightarrow> ([], s)
      | _ \<Rightarrow> ([conversion_error], \<lparr>Unknown = False, Null = False, Value = ''''\<rparr>))"

subsection \<open>Requests and responses\<close>

text \<open>
  Every response carries \<open>Diagnostics\<close>. The fields of a request are prefixed \<open>req_\<close>,
  since a request and its response share field names (\<open>req.AttributePlan\<close> and
  \<open>resp.AttributePlan\<close>, \<open>req.State\<close> and \<open>resp.State\<close>).
\<close>

record Response =
  Diagnostics :: Diagnostics

record ModifyAttributePlanRequest =
  req_AttributeConfig :: attr_Value
  req_AttributeState :: attr_Value
  req_AttributePlan :: attr_Value

record ModifyAttributePlanResponse = Response +
  AttributePlan :: attr_Value
  RequiresReplace :: bool

section \<open>internal/modifiers: default values at plan time\<close>

record 'a DefaultModifier =
  Default :: 'a

type_synonym int64DefaultModifier = "go_int DefaultModifier"
type_synonym boolDefaultModifier = "bool DefaultModifier"
type_synonym stringDefaultModifier = "string DefaultModifier"

definition int64DefaultModifier_Modify ::
  "int64DefaultModifier \<Rightarrow> ModifyAttributePlanRequest \<Rightarrow> ModifyAttributePlanResponse
     \<Rightarrow> ModifyAttributePlanResponse" where
  "int64DefaultModifier_Modify m req resp =
     (let (diags, str) = ValueAs_Int64 (req_AttributePlan req);
          resp = resp\<lparr>Diagnostics := Append (Diagnostics resp) diags\<rparr>
      in if HasError diags then resp
         else if \<not> Null str then resp
         else resp\<lparr>AttributePlan :=
                Int64Value \<lparr>Unknown = False, Null = False, Value = Default m\<rparr>\<rparr>)"

definition In64Default :: "go_int \<Rightarrow> int64DefaultModifier" where
  "In64Default defaultValue = \<lparr>Default = defaultValue\<rparr>"

text \<open>
  Modelled from the spec: \<open>modifiers.BoolDefault\<close> and its \<open>Modify\<close>, whose file is not
  among the sources. The spec gives the three modifiers one contract: a planned value
  that is null is overwritten with the default, any other plan is left untouched.
\<close>

definition boolDefaultModifier_Modify ::
  "boolDefaultModifier \<Rightarrow> ModifyAttributePlanRequest \<Rightarrow> ModifyAttributePlanResponse
     \<Rightarrow> ModifyAttributePlanResponse" where
  "boolDefaultModifier_Modify m req resp =
     (let (diags, str) = ValueAs_Bool (req_AttributePlan req);
          resp = resp\<lparr>Diagnostics := Append (Diagnostics resp) diags\<rparr>
      in if HasError diags then resp
         else if \<not> Null str then resp
         else resp\<lparr>AttributePlan :=
                BoolValue \<lparr>Unknown = False, Null = False, Value = Default m\<rparr>\<rparr>)"

text \<open>
  Modelled from the spec: the constructor \<open>modifiers.BoolDefault\<close>, not among the
  sources; as \<open>In64Default\<close>, it stores the default it is given.
\<close>

definition BoolDefault :: "bool \<Rightarrow> boolDefaultModifier" where
  "BoolDefault defaultValue = \<lparr>Default = defaultValue\<rparr>"

text \<open>
  Modelled from the spec: \<open>modifiers.StringDefault\<close> and its \<open>Modify\<close>, whose file is
  not among the sources; the same contract, on strings.
\<close>

definition stringDefaultModifier_Modify ::
  "stringDefaultModifier \<Rightarrow> ModifyAttributePlanRequest \<Rightarrow> ModifyAttributePlanResponse
     \<Rightarrow> ModifyAttributePlanResponse" where
  "stringDefaultModifier_Modify m req resp =
     (let (diags, str) = ValueAs_String (req_AttributePlan req);
          resp = resp\<lparr>Diagnostics := Append (Diagnostics resp) diags\<rparr>
      in if HasError diags then resp
         else if \<not> Null str then resp
         else resp\<lparr>AttributePlan :=
                StringValue \<lparr>Unknown = False, Null = False, Value = Default m\<rparr>\<rparr>)"

text \<open>
  Modelled from the spec: the constructor \<open>modifiers.StringDefault\<close>, not among the
  sources; as \<open>In64Default\<close>, it stores the default it is given.
\<close>

definition StringDefault :: "string \<Rightarrow> stringDefaultModifier" where
  "StringDefault defaultValue = \<lparr>Default = defaultValue\<rparr>"

text \<open>
  The defaults that \<open>rssFeedResourceType.GetSchema\<close> declares on the four optional
  attributes.
\<close>

definition parent_dir_id_default :: int64DefaultModifier where
  "parent_dir_id_default = In64Default 0"

definition delete_old_files_default :: boolDefaultModifier where
  "delete_old_files_default = BoolDefault False"

definition unwanted_keywords_default :: stringDefaultModifier where
  "unwanted_keywords_default = StringDefault []"

definition paused_default :: boolDefaultModifier where
  "paused_default = BoolDefault False"

section \<open>The put.io client and the process around the provider\<close>

text \<open>
  A \<open>*putio.Client\<close> is built from an OAuth token; the pointer may be nil. What the
  client library, the form encoder, the escapes of a quoted string and the process
  environment answer is not decided by this repository: it is a parameter of every
  operation, collected in \<open>env\<close>. The library's methods are taken to return (a value or
  an error) for every receiver they are given.
\<close>

record putio_Client =
  AccessToken :: string

type_synonym http_Header = "string \<Rightarrow> string list"

record http_Request =
  Method :: string
  URL :: string
  Body :: string
  Header :: http_Header

definition Header_Set :: "http_Header \<Rightarrow> string \<Rightarrow> string \<Rightarrow> http_Header" where
  "Header_Set h k v = h(k := [v])"

definition Header_Add :: "http_Header \<Rightarrow> string \<Rightarrow> string \<Rightarrow> http_Header" where
  "Header_Add h k v = h(k := h k @ [v])"

text \<open>\<open>url.Values\<close>: a map from a key to its values; \<open>Set\<close> replaces them by one.\<close>

type_synonym url_Values = "string \<rightharpoonup> string list"

definition Values_Set :: "url_Values \<Rightarrow> string \<Rightarrow> string \<Rightarrow> url_Values" where
  "Values_Set v k x = v(k \<mapsto> [x])"

text \<open>putioFeedData describes an RSS feed as Put.io REST format.\<close>

record putioFeed =
  Feed_ID :: go_int
  Feed_Title :: string
  Feed_RssSourceURL :: string
  Feed_ParentDirID :: go_int
  Feed_DeleteOldFiles :: bool
  Feed_Keyword :: string
  Feed_UnwantedKeywords :: string
  Feed_Paused :: bool

record putioFeedData =
  Feed :: putioFeed
  Status :: string

record env =
  client_NewRequest :: "putio_Client option \<Rightarrow> string \<Rightarrow> string \<Rightarrow> string \<Rightarrow> error + http_Request"
  client_Do :: "putio_Client option \<Rightarrow> http_Request \<Rightarrow> error + putioFeedData"
  client_ValidateToken :: "putio_Client \<Rightarrow> error option"
  Values_Encode :: "url_Values \<Rightarrow> string"
  Quote_escapes :: "string \<Rightarrow> string"
  environ :: "string \<rightharpoonup> string"

text \<open>
  \<open>fmt.Sprintf("%q", s)\<close>: the string in double quotes, its characters escaped as Go
  source would write them (\<open>Quote_escapes\<close>; a string of plain letters and digits has
  nothing to escape).
\<close>

definition Sprintf_q :: "env \<Rightarrow> string \<Rightarrow> string" where
  "Sprintf_q e s = CHR 0x22 # Quote_escapes e s @ [CHR 0x22]"

text \<open>
  The method \<open>String()\<close> of the framework's \<open>types.String\<close>, its human-readable
  rendering: a marker for an unknown or a null value, the value quoted with \<open>%q\<close>
  otherwise.
\<close>

definition String_String :: "env \<Rightarrow> types_String \<Rightarrow> string" where
  "String_String e s =
     (if Unknown s then ''<unknown>''
      else if Null s then ''<null>''
      else Sprintf_q e (Value s))"

text \<open>\<open>os.Getenv\<close>: the empty string for a variable that is not set.\<close>

definition os_Getenv :: "env \<Rightarrow> string \<Rightarrow> string" where
  "os_Getenv e key = (case environ e key of None \<Rightarrow> [] | Some v \<Rightarrow> v)"

text \<open>
  The calls that reach the client, in order. Every operation takes the calls made so
  far and returns them extended by its own.
\<close>

datatype client_call =
  NewRequestCall string string string
| DoCall http_Request
| ValidateTokenCall putio_Client

text \<open>
  \<open>Config.Get\<close>, \<open>Plan.Get\<close> and \<open>State.Get\<close> decode into a Go struct and return
  diagnostics; a request holds, for each, the pair that \<open>Get\<close> yields.
\<close>

type_synonym 'a tfsdk_Get = "Diagnostics \<times> 'a"

section \<open>internal/provider: the provider\<close>

record provider =
  client :: "putio_Client option"
  configured :: bool
  version :: string

record providerData =
  PutIOOAuthToken :: types_String

record ConfigureProviderRequest =
  req_ProviderConfig :: "providerData tfsdk_Get"

text \<open>
  The token that \<open>Configure\<close> settles on: the \<open>String()\<close> of the configured
  attribute, replaced by the environment variable when the attribute is null.
\<close>

definition Configure_token :: "env \<Rightarrow> providerData \<Rightarrow> string" where
  "Configure_token e data =
     (let token = String_String e (PutIOOAuthToken data);
          token = (if Null (PutIOOAuthToken data)
                   then os_Getenv e ''PUTIO_OAUTH_TOKEN'' else token)
      in token)"

definition Configure ::
  "env \<Rightarrow> provider \<Rightarrow> ConfigureProviderRequest \<Rightarrow> Response \<Rightarrow> client_call list
     \<Rightarrow> provider \<times> Response \<times> client_call list" where
  "Configure e p req resp calls =
     (let (diags, data) = req_ProviderConfig req;
          resp = resp\<lparr>Diagnostics := Append (Diagnostics resp) diags\<rparr>
      in if HasError (Diagnostics resp) then (p, resp, calls)
         else
           let token = Configure_token e data
           in if token = []
              then (p,
                    resp\<lparr>Diagnostics := AddError (Diagnostics resp)
                      ''Unable to find put.io token''
                      ''Cannot use token as an empty string''\<rparr>,
                    calls)
              else
                let c = \<lparr>AccessToken = token\<rparr>;
                    calls = calls @ [ValidateTokenCall c]
                in case client_ValidateToken e c of
                     Some err \<Rightarrow>
                       (p,
                        resp\<lparr>Diagnostics := AddError (Diagnostics resp)
                          ''Unable to create put.io client'' err\<rparr>,
                        calls)
                   | None \<Rightarrow>
                       (p\<lparr>client := Some c, configured := True\<rparr>, resp, calls))"

definition New :: "string \<Rightarrow> provider" where
  "New v = \<lparr>client = None, configured = False, version = v\<rparr>"

text \<open>
  A \<open>tfsdk.Provider\<close> interface value: the nil interface, a \<open>*provider\<close> (a nil pointer,
  or a pointer to a provider), or a value of another concrete type, named.
\<close>

datatype tfsdk_Provider =
  NilInterface
| ProviderPtr "provider option"
| OtherProvider string

text \<open>\<open>p, ok := in.(*provider)\<close>: the nil pointer and false unless \<open>in\<close> is a \<open>*provider\<close>.\<close>

definition assert_provider :: "tfsdk_Provider \<Rightarrow> provider option \<times> bool" where
  "assert_provider i = (case i of ProviderPtr p \<Rightarrow> (p, True) | _ \<Rightarrow> (None, False))"

text \<open>
  The outcome of a function that can panic: \<open>*p\<close> on a nil pointer panics, on any
  other pointer it yields the value pointed to.
\<close>

datatype 'a outcome = Panic | Return 'a

definition deref :: "'a option \<Rightarrow> 'a outcome" where
  "deref p = (case p of None \<Rightarrow> Panic | Some v \<Rightarrow> Return v)"

definition zero_provider :: provider where
  "zero_provider = \<lparr>client = None, configured = False, version = []\<rparr>"

definition convertProviderType :: "tfsdk_Provider \<Rightarrow> (provider \<times> Diagnostics) outcome" where
  "convertProviderType i =
     (let diags = [];
          (p, ok) = assert_provider i
      in if \<not> ok
         then Return (zero_provider,
                AddError diags ''Unexpected Provider Instance Type''
                  ''While creating the data source or resource, an unexpected provider type (*provider.provider) was received. This is always a bug in the provider code and should be reported to the provider developers.'')
         else if p = None
         then Return (zero_provider,
                AddError diags ''Unexpected Provider Instance Type''
                  ''While creating the data source or resource, an unexpected empty provider instance was received. This is always a bug in the provider code and should be reported to the provider developers.'')
         else (case deref p of Panic \<Rightarrow> Panic | Return v \<Rightarrow> Return (v, diags)))"

section \<open>internal/provider: the RSS feed resource\<close>

text \<open>rssFeedResourceData describes an RSS feed as Terraform attributes.\<close>

record rssFeedResourceData =
  ID :: types_String
  Title :: types_String
  RssSourceURL :: types_String
  ParentDirID :: types_Int64
  DeleteOldFiles :: types_Bool
  Keyword :: types_String
  UnwantedKeywords :: types_String
  Paused :: types_Bool

record rssFeedResource =
  provider :: provider

text \<open>
  The tracked state of a response: \<open>None\<close> while nothing is stored, and the struct
  last given to \<open>State.Set\<close> afterwards. \<open>Set\<close> of a struct of the schema's own types
  stores it and reports nothing.
\<close>

type_synonym tfsdk_State = "rssFeedResourceData option"

definition State_Set :: "tfsdk_State \<Rightarrow> rssFeedResourceData \<Rightarrow> Diagnostics \<times> tfsdk_State" where
  "State_Set st data = ([], Some data)"

record ResourceResponse = Response +
  State :: tfsdk_State

record CreateResourceRequest =
  req_Config :: "rssFeedResourceData tfsdk_Get"
  req_Plan :: "rssFeedResourceData tfsdk_Get"

record ReadResourceRequest =
  req_State :: "rssFeedResourceData tfsdk_Get"

record UpdateResourceRequest =
  upd_Config :: "rssFeedResourceData tfsdk_Get"
  upd_Plan :: "rssFeedResourceData tfsdk_Get"
  upd_State :: "rssFeedResourceData tfsdk_Get"

record DeleteResourceRequest =
  del_State :: "rssFeedResourceData tfsdk_Get"

definition NewResource :: "tfsdk_Provider \<Rightarrow> (rssFeedResource \<times> Diagnostics) outcome" where
  "NewResource i =
     (case convertProviderType i of
        Panic \<Rightarrow> Panic
      | Return (p, diags) \<Rightarrow> Return (\<lparr>provider = p\<rparr>, diags))"

text \<open>The form payload that \<open>Create\<close> fills from the decoded configuration.\<close>

definition Create_payload :: "rssFeedResourceData \<Rightarrow> url_Values" where
  "Create_payload data =
     (let payload = Map.empty;
          payload = Values_Set payload ''title'' (Value (Title data));
          payload = Values_Set payload ''rss_source_url'' (Value (RssSourceURL data));
          payload = Values_Set payload ''parent_dir_id''
                      (strconv_FormatInt (Value (ParentDirID data)));
          payload = Values_Set payload ''delete_old_files''
                      (Sprintf_t (Value (DeleteOldFiles data)));
          payload = Values_Set payload ''dont_process_whole_feed'' ''false'';
          payload = Values_Set payload ''keyword'' (Value (Keyword data));
          payload = Values_Set payload ''unwanted_keywords'' (Value (UnwantedKeywords data));
          payload = Values_Set payload ''paused'' (Sprintf_t (Value (Paused data)))
      in payload)"

text \<open>The two headers that \<open>Create\<close> puts on the request, given the encoded payload.\<close>

definition Create_headers :: "string \<Rightarrow> http_Request \<Rightarrow> http_Request" where
  "Create_headers encoded request =
     (let request = request\<lparr>Header := Header_Set (Header request)
                      ''Content-Type'' ''application/x-www-form-urlencoded''\<rparr>;
          request = request\<lparr>Header := Header_Add (Header request)
                      ''Content-Length'' (strconv_Itoa (go_len encoded))\<rparr>
      in request)"

text \<open>The assignments of \<open>Create\<close> after the call: every field, from the created feed.\<close>

definition Create_assign :: "rssFeedResourceData \<Rightarrow> putioFeedData \<Rightarrow> rssFeedResourceData" where
  "Create_assign data createdFeed =
     (let data = data\<lparr>ID := \<lparr>Unknown = False, Null = False,
                   Value = strconv_Itoa (Feed_ID (Feed createdFeed))\<rparr>\<rparr>;
          data = data\<lparr>Title := \<lparr>Unknown = False, Null = False,
                   Value = Feed_Title (Feed createdFeed)\<rparr>\<rparr>;
          data = data\<lparr>RssSourceURL := \<lparr>Unknown = False, Null = False,
                   Value = Feed_RssSourceURL (Feed createdFeed)\<rparr>\<rparr>;
          data = data\<lparr>ParentDirID := \<lparr>Unknown = False, Null = False,
                   Value = Feed_ParentDirID (Feed createdFeed)\<rparr>\<rparr>;
          data = data\<lparr>DeleteOldFiles := \<lparr>Unknown = False, Null = False,
                   Value = Feed_DeleteOldFiles (Feed createdFeed)\<rparr>\<rparr>;
          data = data\<lparr>Keyword := \<lparr>Unknown = False, Null = False,
                   Value = Feed_Keyword (Feed createdFeed)\<rparr>\<rparr>;
          data = data\<lparr>UnwantedKeywords := \<lparr>Unknown = False, Null = False,
                   Value = Feed_UnwantedKeywords (Feed createdFeed)\<rparr>\<rparr>;
          data = data\<lparr>Paused := \<lparr>Unknown = False, Null = False,
                   Value = Feed_Paused (Feed createdFeed)\<rparr>\<rparr>
      in data)"

definition Create ::
  "env \<Rightarrow> rssFeedResource \<Rightarrow> CreateResourceRequest \<Rightarrow> ResourceResponse \<Rightarrow> client_call list
     \<Rightarrow> ResourceResponse \<times> client_call list" where
  "Create e r req resp calls =
     (let (diags, data) = req_Config req;
          resp = resp\<lparr>Diagnostics := Append (Diagnostics resp) diags\<rparr>
      in if HasError (Diagnostics resp) then (resp, calls)
         else
           let payload = Create_payload data;
               calls = calls @ [NewRequestCall ''POST'' ''/v2/rss/create''
                                  (Values_Encode e payload)]
           in case client_NewRequest e (client (provider r)) ''POST'' ''/v2/rss/create''
                     (Values_Encode e payload) of
                Inl err \<Rightarrow>
                  (resp\<lparr>Diagnostics := AddError (Diagnostics resp) ''Client Error''
                     (''Unable to create rss feed request, got error: '' @ err)\<rparr>,
                   calls)
              | Inr request \<Rightarrow>
                  let request = Create_headers (Values_Encode e payload) request;
                      calls = calls @ [DoCall request]
                  in (case client_Do e (client (provider r)) request of
                       Inl err \<Rightarrow>
                         (resp\<lparr>Diagnostics := AddError (Diagnostics resp) ''Client Error''
                            (''Unable to create rss feed, got error: '' @ err)\<rparr>,
                          calls)
                     | Inr createdFeed \<Rightarrow>
                         let data = Create_assign data createdFeed;
                             (diags, st) = State_Set (State resp) data
                         in (resp\<lparr>State := st,
                                   Diagnostics := Append (Diagnostics resp) diags\<rparr>,
                             calls)))"

text \<open>The assignments of \<open>Read\<close> after the call: every field, from the feed read.\<close>

definition Read_assign :: "rssFeedResourceData \<Rightarrow> putioFeedData \<Rightarrow> rssFeedResourceData" where
  "Read_assign data feedData =
     (let data = data\<lparr>ID := \<lparr>Unknown = False, Null = False,
                   Value = strconv_Itoa (Feed_ID (Feed feedData))\<rparr>\<rparr>;
          data = data\<lparr>Title := \<lparr>Unknown = False, Null = False,
                   Value = Feed_Title (Feed feedData)\<rparr>\<rparr>;
          data = data\<lparr>RssSourceURL := \<lparr>Unknown = False, Null = False,
                   Value = Feed_RssSourceURL (Feed feedData)\<rparr>\<rparr>;
          data = data\<lparr>ParentDirID := \<lparr>Unknown = False, Null = False,
                   Value = Feed_ParentDirID (Feed feedData)\<rparr>\<rparr>;
          data = data\<lparr>DeleteOldFiles := \<lparr>Unknown = False, Null = False,
                   Value = Feed_DeleteOldFiles (Feed feedData)\<rparr>\<rparr>;
          data = data\<lparr>Keyword := \<lparr>Unknown = False, Null = False,
                   Value = Feed_Keyword (Feed feedData)\<rparr>\<rparr>;
          data = data\<lparr>UnwantedKeywords := \<lparr>Unknown = False, Null = False,
                   Value = Feed_UnwantedKeywords (Feed feedData)\<rparr>\<rparr>;
          data = data\<lparr>Paused := \<lparr>Unknown = False, Null = False,
                   Value = Feed_Paused (Feed feedData)\<rparr>\<rparr>
      in data)"

definition Read ::
  "env \<Rightarrow> rssFeedResource \<Rightarrow> ReadResourceRequest \<Rightarrow> ResourceResponse \<Rightarrow> client_call list
     \<Rightarrow> ResourceResponse \<times> client_call list" where
  "Read e r req resp calls =
     (let (diags, data) = req_State req;
          resp = resp\<lparr>Diagnostics := Append (Diagnostics resp) diags\<rparr>
      in if HasError (Diagnostics resp) then (resp, calls)
         else
           let calls = calls @ [NewRequestCall ''GET'' (''/v2/rss/'' @ Value (ID data)) []]
           in case client_NewRequest e (client (provider r)) ''GET''
                     (''/v2/rss/'' @ Value (ID data)) [] of
                Inl err \<Rightarrow>
                  (resp\<lparr>Diagnostics := AddError (Diagnostics resp) ''Client Error''
                     (''Unable to create rss feed request, got error: '' @ err)\<rparr>,
                   calls)
              | Inr request \<Rightarrow>
                  let calls = calls @ [DoCall request]
                  in (case client_Do e (client (provider r)) request of
                       Inl err \<Rightarrow>
                         (resp\<lparr>Diagnostics := AddError (Diagnostics resp) ''Client Error''
                            (''Unable to read rss feed, got error: '' @ err)\<rparr>,
                          calls)
                     | Inr feedData \<Rightarrow>
                         let data = Read_assign data feedData;
                             (diags, st) = State_Set (State resp) data
                         in (resp\<lparr>State := st,
                                   Diagnostics := Append (Diagnostics resp) diags\<rparr>,
                             calls)))"

definition Update ::
  "env \<Rightarrow> rssFeedResource \<Rightarrow> UpdateResourceRequest \<Rightarrow> ResourceResponse \<Rightarrow> client_call list
     \<Rightarrow> ResourceResponse \<times> client_call list" where
  "Update e r req resp calls =
     (let (diags, data) = upd_Plan req;
          resp = resp\<lparr>Diagnostics := Append (Diagnostics resp) diags\<rparr>
      in if HasError (Diagnostics resp) then (resp, calls)
         else
           let (diags, st) = State_Set (State resp) data
           in (resp\<lparr>State := st, Diagnostics := Append (Diagnostics resp) diags\<rparr>,
               calls))"

definition Delete ::
  "env \<Rightarrow> rssFeedResource \<Rightarrow> DeleteResourceRequest \<Rightarrow> ResourceResponse \<Rightarrow> client_call list
     \<Rightarrow> ResourceResponse \<times> client_call list" where
  "Delete e r req resp calls =
     (let (diags, data) = del_State req;
          resp = resp\<lparr>Diagnostics := Append (Diagnostics resp) diags\<rparr>
      in if HasError (Diagnostics resp) then (resp, calls)
         else
           let calls = calls @ [NewRequestCall ''POST''
                                  (''/v2/rss/'' @ Value (ID data) @ ''/delete'') []]
           in case client_NewRequest e (client (provider r)) ''POST''
                     (''/v2/rss/'' @ Value (ID data) @ ''/delete'') [] of
                Inl err \<Rightarrow>
                  (resp\<lparr>Diagnostics := AddError (Diagnostics resp) ''Client Error''
                     (''Unable to create rss feed request deletiob, got error: '' @ err)\<rparr>,
                   calls)
              | Inr request \<Rightarrow>
                  let calls = calls @ [DoCall request]
                  in (case client_Do e (client (provider r)) request of
                       Inl err \<Rightarrow>
                         (resp\<lparr>Diagnostics := AddError (Diagnostics resp) ''Client Error''
                            (''Unable to delete rss feed, got error: '' @ err)\<rparr>,
                          calls)
                     | Inr feedData \<Rightarrow> (resp, calls)))"

section \<open>The record mapping as the specification words it\<close>


section \<open>An example run\<close>

text \<open>
  Concrete values for the acceptance test's configuration (\<open>title = "one"\<close>,
  \<open>rss_source_url = "https://google.fr"\<close>, \<open>keyword = "foo"\<close>, every optional
  attribute omitted) and for an environment around it. An omitted attribute is decoded
  as \<open>types.X{Null: true}\<close>.
\<close>

definition ex_string :: "string \<Rightarrow> types_String" where
  "ex_string s = \<lparr>Unknown = False, Null = False, Value = s\<rparr>"

definition ex_config :: rssFeedResourceData where
  "ex_config =
     \<lparr>ID = \<lparr>Unknown = False, Null = True, Value = []\<rparr>,
      Title = ex_string ''one'',
      RssSourceURL = ex_string ''https://google.fr'',
      ParentDirID = \<lparr>Unknown = False, Null = True, Value = 0\<rparr>,
      DeleteOldFiles = \<lparr>Unknown = False, Null = True, Value = False\<rparr>,
      Keyword = ex_string ''foo'',
      UnwantedKeywords = \<lparr>Unknown = False, Null = True, Value = []\<rparr>,
      Paused = \<lparr>Unknown = False, Null = True, Value = False\<rparr>\<rparr>"

definition ex_feed :: "go_int \<Rightarrow> putioFeedData" where
  "ex_feed parent =
     \<lparr>Feed = \<lparr>Feed_ID = 42, Feed_Title = ''one'', Feed_RssSourceURL = ''https://google.fr'',
              Feed_ParentDirID = parent, Feed_DeleteOldFiles = False, Feed_Keyword = ''foo'',
              Feed_UnwantedKeywords = [], Feed_Paused = False\<rparr>,
      Status = ''OK''\<rparr>"

definition ex_request :: "string \<Rightarrow> string \<Rightarrow> string \<Rightarrow> http_Request" where
  "ex_request m u b = \<lparr>Method = m, URL = u, Body = b, Header = (\<lambda>k. [])\<rparr>"

text \<open>
  An environment in which every call succeeds and the service answers with the given
  feed; \<open>PUTIO_OAUTH_TOKEN\<close> is set.
\<close>

definition ex_env :: "putioFeedData \<Rightarrow> env" where
  "ex_env answer =
     \<lparr>client_NewRequest = (\<lambda>c m u b. Inr (ex_request m u b)),
      client_Do = (\<lambda>c request. Inr answer),
      client_ValidateToken = (\<lambda>c. None),
      Values_Encode = (\<lambda>v. ''title=one''),
      Quote_escapes = (\<lambda>s. s),
      environ = [''PUTIO_OAUTH_TOKEN'' \<mapsto> ''secret'']\<rparr>"

definition ex_resource :: rssFeedResource where
  "ex_resource =
     \<lparr>provider = \<lparr>client = Some \<lparr>AccessToken = ''secret''\<rparr>, configured = True,
                   version = ''test''\<rparr>\<rparr>"

definition ex_response :: ResourceResponse where
  "ex_response = \<lparr>Diagnostics = [], State = None\<rparr>"

definition ex_create :: CreateResourceRequest where
  "ex_create = \<lparr>req_Config = ([], ex_config), req_Plan = ([], ex_config)\<rparr>"

text \<open>A request to modify the plan of an attribute whose planned value is \<open>v\<close>.\<close>

definition ex_plan :: "attr_Value \<Rightarrow> ModifyAttributePlanRequest" where
  "ex_plan v = \<lparr>req_AttributeConfig = v, req_AttributeState = v, req_AttributePlan = v\<rparr>"

definition ex_unknown_plan :: ModifyAttributePlanRequest where
  "ex_unknown_plan =
     \<lparr>req_AttributeConfig = Int64Value \<lparr>Unknown = False, Null = True, Value = 0\<rparr>,
      req_AttributeState = Int64Value \<lparr>Unknown = False, Null = True, Value = 0\<rparr>,
      req_AttributePlan = Int64Value \<lparr>Unknown = True, Null = False, Value = 0\<rparr>\<rparr>"

text \<open>The response a modifier is handed: the planned value of the request, no diagnostics.\<close>

definition ex_modify_response :: "ModifyAttributePlanRequest \<Rightarrow> ModifyAttributePlanResponse" where
  "ex_modify_response req =
     \<lparr>Diagnostics = [], AttributePlan = req_AttributePlan req, RequiresReplace = False\<rparr>"

definition ex_read :: ReadResourceRequest where
  "ex_read = \<lparr>req_State = ([], ex_config\<lparr>ID := ex_string ''42''\<rparr>)\<rparr>"

definition ex_update :: UpdateResourceRequest where
  "ex_update =
     \<lparr>upd_Config = ([], ex_config),
      upd_Plan = ([], ex_config\<lparr>ID := ex_string ''42'', Title := ex_string ''two''\<rparr>),
      upd_State = ([], ex_config\<lparr>ID := ex_string ''42''\<rparr>)\<rparr>"

definition ex_delete :: DeleteResourceRequest where
  "ex_delete = \<lparr>del_State = ([], ex_config\<lparr>ID := ex_string ''42''\<rparr>)\<rparr>"

text \<open>
  Two environments that fail: in the first the client cannot build a request, in the
  second the call to the service fails.
\<close>

definition ex_env_no_request :: "error \<Rightarrow> env" where
  "ex_env_no_request err = (ex_env (ex_feed 0))\<lparr>client_NewRequest := (\<lambda>c m u b. Inl err)\<rparr>"

definition ex_env_refused :: "error \<Rightarrow> env" where
  "ex_env_refused err = (ex_env (ex_feed 0))\<lparr>client_Do := (\<lambda>c request. Inl err)\<rparr>"

definition ex_provider_config :: "types_String \<Rightarrow> ConfigureProviderRequest" where
  "ex_provider_config token = \<lparr>req_ProviderConfig = ([], \<lparr>PutIOOAuthToken = token\<rparr>)\<rparr>"

text \<open>A provider configuration whose decoding failed.\<close>

definition ex_provider_config_undecoded :: ConfigureProviderRequest where
  "ex_provider_config_undecoded =
     \<lparr>req_ProviderConfig =
        ([conversion_error],
         \<lparr>PutIOOAuthToken = \<lparr>Unknown = False, Null = False, Value = []\<rparr>\<rparr>)\<rparr>"

definition ex_null_string :: types_String where
  "ex_null_string = \<lparr>Unknown = False, Null = True, Value = []\<rparr>"

text \<open>An environment without the variable, and one whose service rejects every token.\<close>

definition ex_env_no_variable :: env where
  "ex_env_no_variable = (ex_env (ex_feed 0))\<lparr>environ := Map.empty\<rparr>"

definition ex_env_invalid_token :: "error \<Rightarrow> env" where
  "ex_env_invalid_token err = (ex_env (ex_feed 0))\<lparr>client_ValidateToken := (\<lambda>c. Some err)\<rparr>"

section \<open>Properties\<close>

subsection \<open>Diagnostics\<close>

lemma AddError_fresh:
  "\<not> HasError ds \<Longrightarrow> AddError ds s d = ds @ [NewErrorDiagnostic s d]"
proof -
  assume h: "\<not> HasError ds"
  have "NewErrorDiagnostic s d \<notin> set ds"
  proof
    assume "NewErrorDiagnostic s d \<in> set ds"
    moreover have "Severity (NewErrorDiagnostic s d) = SeverityError"
      by (simp add: NewErrorDiagnostic_def)
    ultimately have "HasError ds" unfolding HasError_def list_ex_iff by blast
    with h show False by simp
  qed
  then show ?thesis by (simp add: AddError_def)
qed

lemma HasError_AddError: "HasError (AddError ds s d)"
proof -
  have "NewErrorDiagnostic s d \<in> set (AddError ds s d)"
    by (simp add: AddError_def)
  moreover have "Severity (NewErrorDiagnostic s d) = SeverityError"
    by (simp add: NewErrorDiagnostic_def)
  ultimately show ?thesis unfolding HasError_def list_ex_iff by blast
qed

subsection \<open>Decimal rendering is injective\<close>

lemma digit_inj: "a < 10 \<Longrightarrow> b < 10 \<Longrightarrow> digit a = digit b \<Longrightarrow> a = b"
proof -
  assume a: "a < 10" and b: "b < 10" and e: "digit a = digit b"
  have "distinct digits" and "length digits = 10" by (simp_all add: digits_def)
  with a b e show "a = b" by (simp add: digit_def nth_eq_iff_index_eq)
qed

lemma digit_not_minus: "d < 10 \<Longrightarrow> digit d \<noteq> CHR ''-''"
proof -
  assume "d < 10"
  moreover have "length digits = 10" by (simp add: digits_def)
  ultimately have "digit d \<in> set digits" unfolding digit_def by (intro nth_mem) simp
  moreover have "CHR ''-'' \<notin> set digits" by (simp add: digits_def)
  ultimately show ?thesis by metis
qed

lemma decimal_not_Nil: "decimal n \<noteq> []"
  by (subst decimal.simps) simp

lemma decimal_digits: "c \<in> set (decimal n) \<Longrightarrow> c \<noteq> CHR ''-''"
proof (induction n rule: decimal.induct)
  case (1 n)
  show ?case
  proof (cases "n < 10")
    case True
    with "1.prems" show ?thesis
      by (subst (asm) decimal.simps) (auto simp: digit_not_minus)
  next
    case False
    with "1.prems" have "c \<in> set (decimal (n div 10)) \<or> c = digit (n mod 10)"
      by (subst (asm) decimal.simps) auto
    then show ?thesis
    proof
      assume "c \<in> set (decimal (n div 10))"
      with False show ?thesis by (rule "1.IH")
    next
      assume "c = digit (n mod 10)"
      then show ?thesis by (simp add: digit_not_minus)
    qed
  qed
qed

lemma decimal_inj: "decimal n = decimal m \<Longrightarrow> n = m"
proof (induction n arbitrary: m rule: decimal.induct)
  case (1 n)
  have nn: "decimal (n div 10) \<noteq> []" and mm: "decimal (m div 10) \<noteq> []"
    by (rule decimal_not_Nil)+
  show ?case
  proof (cases "n < 10")
    case n: True
    show ?thesis
    proof (cases "m < 10")
      case True
      with n "1.prems" have "digit n = digit m"
        by (simp add: decimal.simps [of n] decimal.simps [of m])
      with n True show ?thesis by (rule digit_inj)
    next
      case False
      with n "1.prems" have "[digit n] = decimal (m div 10) @ [digit (m mod 10)]"
        by (simp add: decimal.simps [of n] decimal.simps [of m])
      with mm show ?thesis by simp
    qed
  next
    case n: False
    show ?thesis
    proof (cases "m < 10")
      case True
      with n "1.prems" have "decimal (n div 10) @ [digit (n mod 10)] = [digit m]"
        by (simp add: decimal.simps [of n] decimal.simps [of m])
      with nn show ?thesis by simp
    next
      case False
      with n "1.prems" have e: "decimal (n div 10) = decimal (m div 10)"
        and d: "digit (n mod 10) = digit (m mod 10)"
        by (simp_all add: decimal.simps [of n] decimal.simps [of m])
      from "1.IH" [OF n e] have q: "n div 10 = m div 10" .
      from d have r: "n mod 10 = m mod 10" by (intro digit_inj) simp_all
      have "n = 10 * (n div 10) + n mod 10" by simp
      also have "\<dots> = 10 * (m div 10) + m mod 10" using q r by simp
      finally show ?thesis by simp
    qed
  qed
qed

lemma FormatInt10_inj: "FormatInt10 i = FormatInt10 j \<Longrightarrow> i = j"
proof -
  assume e: "FormatInt10 i = FormatInt10 j"
  have hd_ok: "\<And>n. hd (decimal n) \<noteq> CHR ''-''"
    using decimal_digits decimal_not_Nil hd_in_set by blast
  have no: "\<And>n m. CHR ''-'' # decimal n \<noteq> decimal m"
  proof
    fix n m assume "CHR ''-'' # decimal n = decimal m"
    then have "hd (decimal m) = CHR ''-''" by (metis list.sel(1))
    with hd_ok show False by simp
  qed
  show "i = j"
  proof (cases "i < 0")
    case i: True
    show ?thesis
    proof (cases "j < 0")
      case True
      with i e have "decimal (nat (- i)) = decimal (nat (- j))" by (simp add: FormatInt10_def)
      then have "nat (- i) = nat (- j)" by (rule decimal_inj)
      with i True show ?thesis by simp
    next
      case False
      with i e no show ?thesis by (simp add: FormatInt10_def)
    qed
  next
    case i: False
    show ?thesis
    proof (cases "j < 0")
      case True
      with i e no [of "nat (- j)" "nat i"] show ?thesis by (simp add: FormatInt10_def)
    next
      case False
      with i e have "decimal (nat i) = decimal (nat j)" by (simp add: FormatInt10_def)
      then have "nat i = nat j" by (rule decimal_inj)
      with i False show ?thesis by simp
    qed
  qed
qed

lemma strconv_Itoa_inj: "strconv_Itoa a = strconv_Itoa b \<Longrightarrow> a = b"
proof -
  assume "strconv_Itoa a = strconv_Itoa b"
  then have "sint a = sint b"
    unfolding strconv_Itoa_def strconv_FormatInt_def by (rule FormatInt10_inj)
  then show "a = b" by (rule signed_word_eqI)
qed

subsection \<open>What a successful Create or Read leaves behind\<close>

lemma Create_success:
  assumes "Create e r req resp calls = (resp', calls')"
    and "\<not> HasError (Diagnostics resp')"
  shows "\<exists>request createdFeed.
      client_NewRequest e (client (provider r)) ''POST'' ''/v2/rss/create''
        (Values_Encode e (Create_payload (snd (req_Config req)))) = Inr request \<and>
      client_Do e (client (provider r))
        (Create_headers (Values_Encode e (Create_payload (snd (req_Config req)))) request)
        = Inr createdFeed \<and>
      State resp' = Some (Create_assign (snd (req_Config req)) createdFeed) \<and>
      Diagnostics resp' = Append (Diagnostics resp) (fst (req_Config req)) \<and>
      calls' = calls @
        [NewRequestCall ''POST'' ''/v2/rss/create''
           (Values_Encode e (Create_payload (snd (req_Config req)))),
         DoCall (Create_headers
           (Values_Encode e (Create_payload (snd (req_Config req)))) request)]"
  using assms
  by (auto simp: Create_def Let_def State_Set_def HasError_AddError
      split: prod.splits if_splits sum.splits)

lemma Read_success:
  assumes "Read e r req resp calls = (resp', calls')"
    and "\<not> HasError (Diagnostics resp')"
  shows "\<exists>request feedData.
      client_NewRequest e (client (provider r)) ''GET''
        (''/v2/rss/'' @ Value (ID (snd (req_State req)))) [] = Inr request \<and>
      client_Do e (client (provider r)) request = Inr feedData \<and>
      State resp' = Some (Read_assign (snd (req_State req)) feedData) \<and>
      Diagnostics resp' = Append (Diagnostics resp) (fst (req_State req)) \<and>
      calls' = calls @
        [NewRequestCall ''GET'' (''/v2/rss/'' @ Value (ID (snd (req_State req)))) [],
         DoCall request]"
  using assms
  by (auto simp: Read_def Let_def State_Set_def HasError_AddError
      split: prod.splits if_splits sum.splits)

lemma Create_assign_eq:
  "Create_assign data f =
     \<lparr>ID = \<lparr>Unknown = False, Null = False, Value = strconv_Itoa (Feed_ID (Feed f))\<rparr>,
      Title = \<lparr>Unknown = False, Null = False, Value = Feed_Title (Feed f)\<rparr>,
      RssSourceURL = \<lparr>Unknown = False, Null = False, Value = Feed_RssSourceURL (Feed f)\<rparr>,
      ParentDirID = \<lparr>Unknown = False, Null = False, Value = Feed_ParentDirID (Feed f)\<rparr>,
      DeleteOldFiles = \<lparr>Unknown = False, Null = False, Value = Feed_DeleteOldFiles (Feed f)\<rparr>,
      Keyword = \<lparr>Unknown = False, Null = False, Value = Feed_Keyword (Feed f)\<rparr>,
      UnwantedKeywords = \<lparr>Unknown = False, Null = False, Value = Feed_UnwantedKeywords (Feed f)\<rparr>,
      Paused = \<lparr>Unknown = False, Null = False, Value = Feed_Paused (Feed f)\<rparr>\<rparr>"
  by (simp add: Create_assign_def)

lemma Read_assign_eq:
  "Read_assign data f =
     \<lparr>ID = \<lparr>Unknown = False, Null = False, Value = strconv_Itoa (Feed_ID (Feed f))\<rparr>,
      Title = \<lparr>Unknown = False, Null = False, Value = Feed_Title (Feed f)\<rparr>,
      RssSourceURL = \<lparr>Unknown = False, Null = False, Value = Feed_RssSourceURL (Feed f)\<rparr>,
      ParentDirID = \<lparr>Unknown = False, Null = False, Value = Feed_ParentDirID (Feed f)\<rparr>,
      DeleteOldFiles = \<lparr>Unknown = False, Null = False, Value = Feed_DeleteOldFiles (Feed f)\<rparr>,
      Keyword = \<lparr>Unknown = False, Null = False, Value = Feed_Keyword (Feed f)\<rparr>,
      UnwantedKeywords = \<lparr>Unknown = False, Null = False, Value = Feed_UnwantedKeywords (Feed f)\<rparr>,
      Paused = \<lparr>Unknown = False, Null = False, Value = Feed_Paused (Feed f)\<rparr>\<rparr>"
  by (simp add: Read_assign_def)

subsection \<open>The default modifier and unknown values\<close>

text \<open>
  Claim C8. When the int64 default modifier is invoked on a planned value that is
  unknown rather than null, it returns the response it was given: the planned value is
  not replaced (it stays unknown) and no diagnostic is added. The default is written
  only for a null value.
\<close>

theorem int64_default_keeps_unknown:
  assumes "req_AttributePlan req = Int64Value v" and "Unknown v" and "\<not> Null v"
  shows "int64DefaultModifier_Modify m req resp = resp"
  using assms
  by (simp add: int64DefaultModifier_Modify_def ValueAs_Int64_def HasError_def)

theorem int64_default_keeps_unknown_witness:
  "req_AttributePlan ex_unknown_plan = Int64Value \<lparr>Unknown = True, Null = False, Value = 0\<rparr> \<and>
   int64DefaultModifier_Modify parent_dir_id_default ex_unknown_plan
     (ex_modify_response ex_unknown_plan) = ex_modify_response ex_unknown_plan \<and>
   AttributePlan (int64DefaultModifier_Modify parent_dir_id_default ex_unknown_plan
     (ex_modify_response ex_unknown_plan)) = Int64Value \<lparr>Unknown = True, Null = False, Value = 0\<rparr>"
  using int64_default_keeps_unknown [where req = ex_unknown_plan
      and v = "\<lparr>Unknown = True, Null = False, Value = 0\<rparr>" and m = parent_dir_id_default
      and resp = "ex_modify_response ex_unknown_plan"]
  by (simp add: ex_unknown_plan_def ex_modify_response_def)

subsection \<open>convertProviderType\<close>

text \<open>
  Claim C10. For every input, \<open>convertProviderType\<close> does not panic. On a pointer to a
  provider it returns that provider and no diagnostics. On anything else (the nil
  interface, another concrete type, or a nil \<open>*provider\<close>) it returns the zero provider
  and one error diagnostic.
\<close>

theorem convertProviderType_never_panics:
  "convertProviderType i \<noteq> Panic \<and>
   (\<forall>p. i = ProviderPtr (Some p) \<longrightarrow> convertProviderType i = Return (p, [])) \<and>
   ((\<forall>p. i \<noteq> ProviderPtr (Some p)) \<longrightarrow>
      (\<exists>d. convertProviderType i = Return (zero_provider, [d]) \<and>
           Severity d = SeverityError \<and>
           Summary d = ''Unexpected Provider Instance Type''))"
  by (cases i)
     (auto simp: convertProviderType_def assert_provider_def deref_def AddError_def
        NewErrorDiagnostic_def split: option.splits)

theorem convertProviderType_never_panics_witness:
  "convertProviderType (ProviderPtr (Some (New ''test''))) = Return (New ''test'', []) \<and>
   (\<exists>d. convertProviderType (ProviderPtr None) = Return (zero_provider, [d]) \<and>
        Severity d = SeverityError \<and> Summary d = ''Unexpected Provider Instance Type'') \<and>
   (\<exists>d. convertProviderType NilInterface = Return (zero_provider, [d]) \<and>
        Severity d = SeverityError \<and> Summary d = ''Unexpected Provider Instance Type'') \<and>
   (\<exists>d. convertProviderType (OtherProvider ''*other.provider'') = Return (zero_provider, [d]) \<and>
        Severity d = SeverityError \<and> Summary d = ''Unexpected Provider Instance Type'')"
  using convertProviderType_never_panics [of "ProviderPtr (Some (New ''test''))"]
    convertProviderType_never_panics [of "ProviderPtr None"]
    convertProviderType_never_panics [of NilInterface]
    convertProviderType_never_panics [of "OtherProvider ''*other.provider''"]
  by simp

subsection \<open>The example run, evaluated\<close>

lemma ex_Create_run:
  "Create (ex_env (ex_feed p)) ex_resource ex_create ex_response [] =
     (\<lparr>Diagnostics = [], State = Some (Create_assign ex_config (ex_feed p))\<rparr>,
      [NewRequestCall ''POST'' ''/v2/rss/create'' ''title=one'',
       DoCall (Create_headers ''title=one'' (ex_request ''POST'' ''/v2/rss/create'' ''title=one''))])"
  by (simp add: Create_def ex_env_def ex_resource_def ex_create_def ex_response_def
      Let_def State_Set_def HasError_def)

lemma ex_Read_run:
  "Read (ex_env (ex_feed p)) ex_resource ex_read ex_response [] =
     (\<lparr>Diagnostics = [], State = Some (Read_assign (snd (req_State ex_read)) (ex_feed p))\<rparr>,
      [NewRequestCall ''GET'' ''/v2/rss/42'' [],
       DoCall (ex_request ''GET'' ''/v2/rss/42'' [])])"
  by (simp add: Read_def ex_env_def ex_resource_def ex_read_def ex_response_def
      Let_def State_Set_def HasError_def ex_config_def ex_string_def)

lemma ex_Itoa_42: "strconv_Itoa 42 = ''42''"
  by (simp add: strconv_Itoa_def strconv_FormatInt_def FormatInt10_def decimal.simps
      digit_def digits_def)

subsection \<open>The identifier\<close>

text \<open>
  Claim C7. After every successful Create or Read (one that returns without an error
  diagnostic), the identifier stored in the tracked state is a known string: the
  decimal string form of the integer identifier of the feed that the client call
  returned. The conversion loses nothing: two different wire integers never give the
  same string.
\<close>

theorem identifier_is_decimal_string:
  "(Create e r creq cresp ccalls = (cresp', ccalls') \<longrightarrow> \<not> HasError (Diagnostics cresp') \<longrightarrow>
      (\<exists>request createdFeed.
         last ccalls' = DoCall request \<and>
         client_Do e (client (provider r)) request = Inr createdFeed \<and>
         map_option ID (State cresp') =
           Some \<lparr>Unknown = False, Null = False,
                 Value = FormatInt10 (sint (Feed_ID (Feed createdFeed)))\<rparr>)) \<and>
   (Read e r rreq rresp rcalls = (rresp', rcalls') \<longrightarrow> \<not> HasError (Diagnostics rresp') \<longrightarrow>
      (\<exists>request feedData.
         last rcalls' = DoCall request \<and>
         client_Do e (client (provider r)) request = Inr feedData \<and>
         map_option ID (State rresp') =
           Some \<lparr>Unknown = False, Null = False,
                 Value = FormatInt10 (sint (Feed_ID (Feed feedData)))\<rparr>)) \<and>
   (\<forall>a b. strconv_Itoa a = strconv_Itoa b \<longrightarrow> a = b)"
proof (intro conjI impI allI)
  assume "Create e r creq cresp ccalls = (cresp', ccalls')" and "\<not> HasError (Diagnostics cresp')"
  from Create_success [OF this]
  show "\<exists>request createdFeed.
         last ccalls' = DoCall request \<and>
         client_Do e (client (provider r)) request = Inr createdFeed \<and>
         map_option ID (State cresp') =
           Some \<lparr>Unknown = False, Null = False,
                 Value = FormatInt10 (sint (Feed_ID (Feed createdFeed)))\<rparr>"
    by (auto simp: Create_assign_eq strconv_Itoa_def strconv_FormatInt_def)
next
  assume "Read e r rreq rresp rcalls = (rresp', rcalls')" and "\<not> HasError (Diagnostics rresp')"
  from Read_success [OF this]
  show "\<exists>request feedData.
         last rcalls' = DoCall request \<and>
         client_Do e (client (provider r)) request = Inr feedData \<and>
         map_option ID (State rresp') =
           Some \<lparr>Unknown = False, Null = False,
                 Value = FormatInt10 (sint (Feed_ID (Feed feedData)))\<rparr>"
    by (auto simp: Read_assign_eq strconv_Itoa_def strconv_FormatInt_def)
next
  fix a b :: go_int
  assume "strconv_Itoa a = strconv_Itoa b"
  then show "a = b" by (rule strconv_Itoa_inj)
qed

theorem identifier_is_decimal_string_witness:
  "\<not> HasError (Diagnostics (fst (Create (ex_env (ex_feed 0)) ex_resource ex_create ex_response []))) \<and>
   map_option ID (State (fst (Create (ex_env (ex_feed 0)) ex_resource ex_create ex_response [])))
     = Some \<lparr>Unknown = False, Null = False, Value = ''42''\<rparr> \<and>
   \<not> HasError (Diagnostics (fst (Read (ex_env (ex_feed 0)) ex_resource ex_read ex_response []))) \<and>
   map_option ID (State (fst (Read (ex_env (ex_feed 0)) ex_resource ex_read ex_response [])))
     = Some \<lparr>Unknown = False, Null = False, Value = ''42''\<rparr> \<and>
   strconv_Itoa 42 \<noteq> strconv_Itoa 24"
proof -
  have inj: "\<forall>a b. strconv_Itoa a = strconv_Itoa b \<longrightarrow> a = b"
    using identifier_is_decimal_string [where e = "ex_env (ex_feed 0)" and r = ex_resource
      and creq = ex_create and cresp = ex_response and ccalls = "[]"
      and rreq = ex_read and rresp = ex_response and rcalls = "[]"]
    by blast
  have "(42 :: go_int) \<noteq> 24" by simp
  with inj have ne: "strconv_Itoa 42 \<noteq> strconv_Itoa 24" by blast
  have c: "fst (Create (ex_env (ex_feed 0)) ex_resource ex_create ex_response []) =
      \<lparr>Diagnostics = [], State = Some (Create_assign ex_config (ex_feed 0))\<rparr>"
    by (simp add: ex_Create_run)
  have r: "fst (Read (ex_env (ex_feed 0)) ex_resource ex_read ex_response []) =
      \<lparr>Diagnostics = [], State = Some (Read_assign (snd (req_State ex_read)) (ex_feed 0))\<rparr>"
    by (simp add: ex_Read_run)
  have i: "Feed_ID (Feed (ex_feed 0)) = 42" by (simp add: ex_feed_def)
  show ?thesis
    unfolding c r
    using ne by (simp add: HasError_def Create_assign_eq Read_assign_eq i ex_Itoa_42)
qed

subsection \<open>Create and Read fill the record alike\<close>



subsection \<open>Update\<close>

text \<open>
  Claim C3. Update makes no call to the client: the calls made are the same after it as
  before it, on every path, and its result does not depend on the environment or on the
  provider. When the plan decodes without an error, the decoded planned record is
  written as the new tracked state, unchanged.
\<close>

theorem Update_makes_no_call:
  "snd (Update e r req resp calls) = calls \<and>
   Update e r req resp calls = Update e' r' req resp calls \<and>
   (\<not> HasError (Append (Diagnostics resp) (fst (upd_Plan req))) \<longrightarrow>
      Update e r req resp calls =
        (resp\<lparr>Diagnostics := Append (Diagnostics resp) (fst (upd_Plan req)),
              State := Some (snd (upd_Plan req))\<rparr>, calls))"
  by (simp add: Update_def Let_def State_Set_def split: prod.splits)

theorem Update_makes_no_call_witness:
  "\<not> HasError (Append (Diagnostics ex_response) (fst (upd_Plan ex_update))) \<and>
   Update (ex_env (ex_feed 0)) ex_resource ex_update ex_response [] =
     (\<lparr>Diagnostics = [],
       State = Some (ex_config\<lparr>ID := ex_string ''42'', Title := ex_string ''two''\<rparr>)\<rparr>, [])"
  using Update_makes_no_call [where e = "ex_env (ex_feed 0)" and r = ex_resource
      and req = ex_update and resp = ex_response and calls = "[]"]
  by (simp add: ex_update_def ex_response_def HasError_def)

subsection \<open>The payload of Create\<close>

lemma Create_payload_eq:
  "Create_payload data =
     [''title'' \<mapsto> [Value (Title data)],
      ''rss_source_url'' \<mapsto> [Value (RssSourceURL data)],
      ''parent_dir_id'' \<mapsto> [strconv_FormatInt (Value (ParentDirID data))],
      ''delete_old_files'' \<mapsto> [Sprintf_t (Value (DeleteOldFiles data))],
      ''dont_process_whole_feed'' \<mapsto> [''false''],
      ''keyword'' \<mapsto> [Value (Keyword data)],
      ''unwanted_keywords'' \<mapsto> [Value (UnwantedKeywords data)],
      ''paused'' \<mapsto> [Sprintf_t (Value (Paused data))]]"
  by (simp add: Create_payload_def Values_Set_def)

lemma Create_calls:
  "\<not> HasError (Append (Diagnostics resp) (fst (req_Config req))) \<Longrightarrow>
   \<exists>rest. snd (Create e r req resp calls) =
      calls @ NewRequestCall ''POST'' ''/v2/rss/create''
                (Values_Encode e (Create_payload (snd (req_Config req)))) # rest"
  by (auto simp: Create_def Let_def State_Set_def split: prod.splits sum.splits)

lemma ex_FormatInt_0: "FormatInt10 0 = ''0''"
  by (simp add: FormatInt10_def decimal.simps digit_def digits_def)

text \<open>
  Claim C2. From the decoded configuration Create builds a form payload with exactly
  the keys title, rss_source_url, parent_dir_id (the decimal string), delete_old_files
  (\<open>true\<close> or \<open>false\<close>), dont_process_whole_feed (always \<open>false\<close>), keyword,
  unwanted_keywords and paused, and hands its encoding to the client as the body of
  \<open>POST /v2/rss/create\<close>. The optional fields enter with their resolved defaults: the
  payload of a record whose four optional attributes are omitted (decoded as null, with
  Go's zero value) is the payload of the same record with the declared defaults written
  in, as the plan modifiers write them.
\<close>

theorem Create_payload_contents:
  "dom (Create_payload data) =
     {''title'', ''rss_source_url'', ''parent_dir_id'', ''delete_old_files'',
      ''dont_process_whole_feed'', ''keyword'', ''unwanted_keywords'', ''paused''} \<and>
   Create_payload data ''title'' = Some [Value (Title data)] \<and>
   Create_payload data ''rss_source_url'' = Some [Value (RssSourceURL data)] \<and>
   Create_payload data ''parent_dir_id'' =
     Some [FormatInt10 (sint (Value (ParentDirID data)))] \<and>
   Create_payload data ''delete_old_files'' =
     Some [if Value (DeleteOldFiles data) then ''true'' else ''false''] \<and>
   Create_payload data ''dont_process_whole_feed'' = Some [''false''] \<and>
   Create_payload data ''keyword'' = Some [Value (Keyword data)] \<and>
   Create_payload data ''unwanted_keywords'' = Some [Value (UnwantedKeywords data)] \<and>
   Create_payload data ''paused'' = Some [if Value (Paused data) then ''true'' else ''false''] \<and>
   Create_payload
     (data\<lparr>ParentDirID := \<lparr>Unknown = False, Null = True, Value = 0\<rparr>,
           DeleteOldFiles := \<lparr>Unknown = False, Null = True, Value = False\<rparr>,
           UnwantedKeywords := \<lparr>Unknown = False, Null = True, Value = []\<rparr>,
           Paused := \<lparr>Unknown = False, Null = True, Value = False\<rparr>\<rparr>) =
   Create_payload
     (data\<lparr>ParentDirID := \<lparr>Unknown = False, Null = False,
                             Value = Default parent_dir_id_default\<rparr>,
           DeleteOldFiles := \<lparr>Unknown = False, Null = False,
                                Value = Default delete_old_files_default\<rparr>,
           UnwantedKeywords := \<lparr>Unknown = False, Null = False,
                                  Value = Default unwanted_keywords_default\<rparr>,
           Paused := \<lparr>Unknown = False, Null = False, Value = Default paused_default\<rparr>\<rparr>) \<and>
   (\<not> HasError (Append (Diagnostics resp) (fst (req_Config req))) \<longrightarrow>
      (\<exists>rest. snd (Create e r req resp calls) =
         calls @ NewRequestCall ''POST'' ''/v2/rss/create''
                   (Values_Encode e (Create_payload (snd (req_Config req)))) # rest))"
proof -
  have d: "dom (Create_payload data) =
     {''title'', ''rss_source_url'', ''parent_dir_id'', ''delete_old_files'',
      ''dont_process_whole_feed'', ''keyword'', ''unwanted_keywords'', ''paused''}"
    unfolding Create_payload_eq by auto
  have v: "Create_payload data ''title'' = Some [Value (Title data)]"
    "Create_payload data ''rss_source_url'' = Some [Value (RssSourceURL data)]"
    "Create_payload data ''parent_dir_id'' =
       Some [FormatInt10 (sint (Value (ParentDirID data)))]"
    "Create_payload data ''delete_old_files'' =
       Some [if Value (DeleteOldFiles data) then ''true'' else ''false'']"
    "Create_payload data ''dont_process_whole_feed'' = Some [''false'']"
    "Create_payload data ''keyword'' = Some [Value (Keyword data)]"
    "Create_payload data ''unwanted_keywords'' = Some [Value (UnwantedKeywords data)]"
    "Create_payload data ''paused'' = Some [if Value (Paused data) then ''true'' else ''false'']"
    unfolding Create_payload_eq by (simp_all add: strconv_FormatInt_def Sprintf_t_def)
  have z: "Create_payload
     (data\<lparr>ParentDirID := \<lparr>Unknown = False, Null = True, Value = 0\<rparr>,
           DeleteOldFiles := \<lparr>Unknown = False, Null = True, Value = False\<rparr>,
           UnwantedKeywords := \<lparr>Unknown = False, Null = True, Value = []\<rparr>,
           Paused := \<lparr>Unknown = False, Null = True, Value = False\<rparr>\<rparr>) =
   Create_payload
     (data\<lparr>ParentDirID := \<lparr>Unknown = False, Null = False,
                             Value = Default parent_dir_id_default\<rparr>,
           DeleteOldFiles := \<lparr>Unknown = False, Null = False,
                                Value = Default delete_old_files_default\<rparr>,
           UnwantedKeywords := \<lparr>Unknown = False, Null = False,
                                  Value = Default unwanted_keywords_default\<rparr>,
           Paused := \<lparr>Unknown = False, Null = False, Value = Default paused_default\<rparr>\<rparr>)"
    unfolding Create_payload_eq
    by (simp add: parent_dir_id_default_def delete_old_files_default_def
        unwanted_keywords_default_def paused_default_def In64Default_def BoolDefault_def
        StringDefault_def)
  from d v z Create_calls [of resp req e r calls] show ?thesis by blast
qed

theorem Create_payload_contents_witness:
  "\<not> HasError (Append (Diagnostics ex_response) (fst (req_Config ex_create))) \<and>
   snd (Create (ex_env (ex_feed 0)) ex_resource ex_create ex_response []) =
     [NewRequestCall ''POST'' ''/v2/rss/create''
        (Values_Encode (ex_env (ex_feed 0)) (Create_payload ex_config)),
      DoCall (Create_headers ''title=one''
        (ex_request ''POST'' ''/v2/rss/create'' ''title=one''))] \<and>
   Create_payload ex_config ''title'' = Some [''one''] \<and>
   Create_payload ex_config ''rss_source_url'' = Some [''https://google.fr''] \<and>
   Create_payload ex_config ''parent_dir_id'' = Some [''0''] \<and>
   Create_payload ex_config ''delete_old_files'' = Some [''false''] \<and>
   Create_payload ex_config ''dont_process_whole_feed'' = Some [''false''] \<and>
   Create_payload ex_config ''keyword'' = Some [''foo''] \<and>
   Create_payload ex_config ''unwanted_keywords'' = Some [[]] \<and>
   Create_payload ex_config ''paused'' = Some [''false'']"
proof -
  have "snd (Create (ex_env (ex_feed 0)) ex_resource ex_create ex_response []) =
     [NewRequestCall ''POST'' ''/v2/rss/create''
        (Values_Encode (ex_env (ex_feed 0)) (Create_payload ex_config)),
      DoCall (Create_headers ''title=one''
        (ex_request ''POST'' ''/v2/rss/create'' ''title=one''))]"
    by (simp add: ex_Create_run) (simp add: ex_env_def)
  moreover have "\<not> HasError (Append (Diagnostics ex_response) (fst (req_Config ex_create)))"
    by (simp add: ex_response_def ex_create_def HasError_def)
  moreover have "Create_payload ex_config ''title'' = Some [Value (Title ex_config)] \<and>
      Create_payload ex_config ''rss_source_url'' = Some [Value (RssSourceURL ex_config)] \<and>
      Create_payload ex_config ''parent_dir_id'' =
        Some [FormatInt10 (sint (Value (ParentDirID ex_config)))] \<and>
      Create_payload ex_config ''delete_old_files'' =
        Some [if Value (DeleteOldFiles ex_config) then ''true'' else ''false''] \<and>
      Create_payload ex_config ''dont_process_whole_feed'' = Some [''false''] \<and>
      Create_payload ex_config ''keyword'' = Some [Value (Keyword ex_config)] \<and>
      Create_payload ex_config ''unwanted_keywords'' = Some [Value (UnwantedKeywords ex_config)] \<and>
      Create_payload ex_config ''paused'' =
        Some [if Value (Paused ex_config) then ''true'' else ''false'']"
    using Create_payload_contents [where data = ex_config and e = "ex_env (ex_feed 0)"
        and r = ex_resource and req = ex_create and resp = ex_response and calls = "[]"]
    by blast
  moreover have "Value (Title ex_config) = ''one''"
    "Value (RssSourceURL ex_config) = ''https://google.fr''"
    "FormatInt10 (sint (Value (ParentDirID ex_config))) = ''0''"
    "Value (DeleteOldFiles ex_config) = False"
    "Value (Keyword ex_config) = ''foo''"
    "Value (UnwantedKeywords ex_config) = []"
    "Value (Paused ex_config) = False"
    by (simp_all add: ex_config_def ex_string_def ex_FormatInt_0)
  ultimately show ?thesis by simp
qed

subsection \<open>Failures of the client\<close>

lemma Create_failure:
  "HasError (Diagnostics (fst (Create e r req resp calls))) \<Longrightarrow>
   State (fst (Create e r req resp calls)) = State resp"
  by (auto simp: Create_def Let_def State_Set_def split: prod.splits if_splits sum.splits)

lemma Read_failure:
  "HasError (Diagnostics (fst (Read e r req resp calls))) \<Longrightarrow>
   State (fst (Read e r req resp calls)) = State resp"
  by (auto simp: Read_def Let_def State_Set_def split: prod.splits if_splits sum.splits)

lemma Delete_state: "State (fst (Delete e r req resp calls)) = State resp"
  by (auto simp: Delete_def Let_def split: prod.splits if_splits sum.splits)

lemma Create_NewRequest_fails:
  assumes "\<not> HasError (Append (Diagnostics resp) (fst (req_Config req)))"
    and "client_NewRequest e (client (provider r)) ''POST'' ''/v2/rss/create''
           (Values_Encode e (Create_payload (snd (req_Config req)))) = Inl err"
  shows "fst (Create e r req resp calls) =
     resp\<lparr>Diagnostics := Append (Diagnostics resp) (fst (req_Config req)) @
       [\<lparr>Severity = SeverityError, Summary = ''Client Error'',
         Detail = ''Unable to create rss feed request, got error: '' @ err\<rparr>]\<rparr>"
  using assms
  by (simp add: Create_def Let_def AddError_fresh NewErrorDiagnostic_def case_prod_beta)

lemma Create_Do_fails:
  assumes "\<not> HasError (Append (Diagnostics resp) (fst (req_Config req)))"
    and "client_NewRequest e (client (provider r)) ''POST'' ''/v2/rss/create''
           (Values_Encode e (Create_payload (snd (req_Config req)))) = Inr request"
    and "client_Do e (client (provider r))
           (Create_headers (Values_Encode e (Create_payload (snd (req_Config req)))) request)
           = Inl err"
  shows "fst (Create e r req resp calls) =
     resp\<lparr>Diagnostics := Append (Diagnostics resp) (fst (req_Config req)) @
       [\<lparr>Severity = SeverityError, Summary = ''Client Error'',
         Detail = ''Unable to create rss feed, got error: '' @ err\<rparr>]\<rparr>"
  using assms
  by (simp add: Create_def Let_def AddError_fresh NewErrorDiagnostic_def case_prod_beta)

lemma Read_NewRequest_fails:
  assumes "\<not> HasError (Append (Diagnostics resp) (fst (req_State req)))"
    and "client_NewRequest e (client (provider r)) ''GET''
           (''/v2/rss/'' @ Value (ID (snd (req_State req)))) [] = Inl err"
  shows "fst (Read e r req resp calls) =
     resp\<lparr>Diagnostics := Append (Diagnostics resp) (fst (req_State req)) @
       [\<lparr>Severity = SeverityError, Summary = ''Client Error'',
         Detail = ''Unable to create rss feed request, got error: '' @ err\<rparr>]\<rparr>"
  using assms
  by (simp add: Read_def Let_def AddError_fresh NewErrorDiagnostic_def case_prod_beta)

lemma Read_Do_fails:
  assumes "\<not> HasError (Append (Diagnostics resp) (fst (req_State req)))"
    and "client_NewRequest e (client (provider r)) ''GET''
           (''/v2/rss/'' @ Value (ID (snd (req_State req)))) [] = Inr request"
    and "client_Do e (client (provider r)) request = Inl err"
  shows "fst (Read e r req resp calls) =
     resp\<lparr>Diagnostics := Append (Diagnostics resp) (fst (req_State req)) @
       [\<lparr>Severity = SeverityError, Summary = ''Client Error'',
         Detail = ''Unable to read rss feed, got error: '' @ err\<rparr>]\<rparr>"
  using assms
  by (simp add: Read_def Let_def AddError_fresh NewErrorDiagnostic_def case_prod_beta)

lemma Delete_NewRequest_fails:
  assumes "\<not> HasError (Append (Diagnostics resp) (fst (del_State req)))"
    and "client_NewRequest e (client (provider r)) ''POST''
           (''/v2/rss/'' @ Value (ID (snd (del_State req))) @ ''/delete'') [] = Inl err"
  shows "fst (Delete e r req resp calls) =
     resp\<lparr>Diagnostics := Append (Diagnostics resp) (fst (del_State req)) @
       [\<lparr>Severity = SeverityError, Summary = ''Client Error'',
         Detail = ''Unable to create rss feed request deletiob, got error: '' @ err\<rparr>]\<rparr>"
  using assms
  by (simp add: Delete_def Let_def AddError_fresh NewErrorDiagnostic_def case_prod_beta)

lemma Delete_Do_fails:
  assumes "\<not> HasError (Append (Diagnostics resp) (fst (del_State req)))"
    and "client_NewRequest e (client (provider r)) ''POST''
           (''/v2/rss/'' @ Value (ID (snd (del_State req))) @ ''/delete'') [] = Inr request"
    and "client_Do e (client (provider r)) request = Inl err"
  shows "fst (Delete e r req resp calls) =
     resp\<lparr>Diagnostics := Append (Diagnostics resp) (fst (del_State req)) @
       [\<lparr>Severity = SeverityError, Summary = ''Client Error'',
         Detail = ''Unable to delete rss feed, got error: '' @ err\<rparr>]\<rparr>"
  using assms
  by (simp add: Delete_def Let_def AddError_fresh NewErrorDiagnostic_def case_prod_beta)

text \<open>
  Claim C5. In Create, Read and Delete (Update makes no call), a failure to build the
  request and a failure of the call are each reported as one error diagnostic added to
  those already there: its summary is the label \<open>Client Error\<close>, its detail a fixed
  sentence followed by the text of the underlying error. Nothing else of the response
  changes, so the tracked state is as it was. More generally, an operation that returns
  with an error diagnostic has left the tracked state untouched.
\<close>

theorem failures_reported_without_state_write:
  "(\<not> HasError (Append (Diagnostics resp) (fst (req_Config creq))) \<longrightarrow>
      client_NewRequest e (client (provider r)) ''POST'' ''/v2/rss/create'' (Values_Encode e (Create_payload (snd (req_Config creq)))) = Inl err \<longrightarrow>
      fst (Create e r creq resp calls) =
        resp\<lparr>Diagnostics := Append (Diagnostics resp) (fst (req_Config creq)) @
          [\<lparr>Severity = SeverityError, Summary = ''Client Error'',
           Detail = ''Unable to create rss feed request, got error: '' @ err\<rparr>]\<rparr>) \<and>
   (\<not> HasError (Append (Diagnostics resp) (fst (req_Config creq))) \<longrightarrow>
      client_NewRequest e (client (provider r)) ''POST'' ''/v2/rss/create'' (Values_Encode e (Create_payload (snd (req_Config creq)))) = Inr crequest \<longrightarrow>
      client_Do e (client (provider r)) (Create_headers (Values_Encode e (Create_payload (snd (req_Config creq)))) crequest) = Inl err \<longrightarrow>
      fst (Create e r creq resp calls) =
        resp\<lparr>Diagnostics := Append (Diagnostics resp) (fst (req_Config creq)) @
          [\<lparr>Severity = SeverityError, Summary = ''Client Error'',
           Detail = ''Unable to create rss feed, got error: '' @ err\<rparr>]\<rparr>) \<and>
   (\<not> HasError (Append (Diagnostics resp) (fst (req_State rreq))) \<longrightarrow>
      client_NewRequest e (client (provider r)) ''GET'' (''/v2/rss/'' @ Value (ID (snd (req_State rreq)))) [] = Inl err \<longrightarrow>
      fst (Read e r rreq resp calls) =
        resp\<lparr>Diagnostics := Append (Diagnostics resp) (fst (req_State rreq)) @
          [\<lparr>Severity = SeverityError, Summary = ''Client Error'',
           Detail = ''Unable to create rss feed request, got error: '' @ err\<rparr>]\<rparr>) \<and>
   (\<not> HasError (Append (Diagnostics resp) (fst (req_State rreq))) \<longrightarrow>
      client_NewRequest e (client (provider r)) ''GET'' (''/v2/rss/'' @ Value (ID (snd (req_State rreq)))) [] = Inr rrequest \<longrightarrow>
      client_Do e (client (provider r)) rrequest = Inl err \<longrightarrow>
      fst (Read e r rreq resp calls) =
        resp\<lparr>Diagnostics := Append (Diagnostics resp) (fst (req_State rreq)) @
          [\<lparr>Severity = SeverityError, Summary = ''Client Error'',
           Detail = ''Unable to read rss feed, got error: '' @ err\<rparr>]\<rparr>) \<and>
   (\<not> HasError (Append (Diagnostics resp) (fst (del_State dreq))) \<longrightarrow>
      client_NewRequest e (client (provider r)) ''POST'' (''/v2/rss/'' @ Value (ID (snd (del_State dreq))) @ ''/delete'') [] = Inl err \<longrightarrow>
      fst (Delete e r dreq resp calls) =
        resp\<lparr>Diagnostics := Append (Diagnostics resp) (fst (del_State dreq)) @
          [\<lparr>Severity = SeverityError, Summary = ''Client Error'',
           Detail = ''Unable to create rss feed request deletiob, got error: '' @ err\<rparr>]\<rparr>) \<and>
   (\<not> HasError (Append (Diagnostics resp) (fst (del_State dreq))) \<longrightarrow>
      client_NewRequest e (client (provider r)) ''POST'' (''/v2/rss/'' @ Value (ID (snd (del_State dreq))) @ ''/delete'') [] = Inr drequest \<longrightarrow>
      client_Do e (client (provider r)) drequest = Inl err \<longrightarrow>
      fst (Delete e r dreq resp calls) =
        resp\<lparr>Diagnostics := Append (Diagnostics resp) (fst (del_State dreq)) @
          [\<lparr>Severity = SeverityError, Summary = ''Client Error'',
           Detail = ''Unable to delete rss feed, got error: '' @ err\<rparr>]\<rparr>) \<and>
   (HasError (Diagnostics (fst (Create e r creq resp calls))) \<longrightarrow>
      State (fst (Create e r creq resp calls)) = State resp) \<and>
   (HasError (Diagnostics (fst (Read e r rreq resp calls))) \<longrightarrow>
      State (fst (Read e r rreq resp calls)) = State resp) \<and>
   (HasError (Diagnostics (fst (Delete e r dreq resp calls))) \<longrightarrow>
      State (fst (Delete e r dreq resp calls)) = State resp)"
  using Create_NewRequest_fails [of resp creq e r err calls]
    Create_Do_fails [of resp creq e r crequest err calls]
    Read_NewRequest_fails [of resp rreq e r err calls]
    Read_Do_fails [of resp rreq e r rrequest err calls]
    Delete_NewRequest_fails [of resp dreq e r err calls]
    Delete_Do_fails [of resp dreq e r drequest err calls]
    Create_failure [of e r creq resp calls]
    Read_failure [of e r rreq resp calls]
    Delete_state [of e r dreq resp calls]
  by blast

theorem failures_reported_without_state_write_witness:
  "fst (Create (ex_env_no_request ''bad URL'') ex_resource ex_create ex_response []) =
     \<lparr>Diagnostics = [\<lparr>Severity = SeverityError, Summary = ''Client Error'',
        Detail = ''Unable to create rss feed request, got error: bad URL''\<rparr>], State = None\<rparr> \<and>
   fst (Create (ex_env_refused ''404'') ex_resource ex_create ex_response []) =
     \<lparr>Diagnostics = [\<lparr>Severity = SeverityError, Summary = ''Client Error'',
        Detail = ''Unable to create rss feed, got error: 404''\<rparr>], State = None\<rparr> \<and>
   fst (Read (ex_env_no_request ''bad URL'') ex_resource ex_read ex_response []) =
     \<lparr>Diagnostics = [\<lparr>Severity = SeverityError, Summary = ''Client Error'',
        Detail = ''Unable to create rss feed request, got error: bad URL''\<rparr>], State = None\<rparr> \<and>
   fst (Read (ex_env_refused ''404'') ex_resource ex_read ex_response []) =
     \<lparr>Diagnostics = [\<lparr>Severity = SeverityError, Summary = ''Client Error'',
        Detail = ''Unable to read rss feed, got error: 404''\<rparr>], State = None\<rparr> \<and>
   fst (Delete (ex_env_no_request ''bad URL'') ex_resource ex_delete ex_response []) =
     \<lparr>Diagnostics = [\<lparr>Severity = SeverityError, Summary = ''Client Error'',
        Detail = ''Unable to create rss feed request deletiob, got error: bad URL''\<rparr>], State = None\<rparr> \<and>
   fst (Delete (ex_env_refused ''404'') ex_resource ex_delete ex_response []) =
     \<lparr>Diagnostics = [\<lparr>Severity = SeverityError, Summary = ''Client Error'',
        Detail = ''Unable to delete rss feed, got error: 404''\<rparr>], State = None\<rparr>"
  using failures_reported_without_state_write [where e = "ex_env_no_request ''bad URL''"
      and err = "''bad URL''" and r = ex_resource and creq = ex_create and rreq = ex_read
      and dreq = ex_delete and resp = ex_response and calls = "[]"]
    failures_reported_without_state_write [where e = "ex_env_refused ''404''"
      and err = "''404''" and r = ex_resource and creq = ex_create and rreq = ex_read
      and dreq = ex_delete and resp = ex_response and calls = "[]"
      and crequest = "ex_request ''POST'' ''/v2/rss/create'' ''title=one''"
      and rrequest = "ex_request ''GET'' ''/v2/rss/42'' []"
      and drequest = "ex_request ''POST'' ''/v2/rss/42/delete'' []"]
  by (simp add: ex_env_no_request_def ex_env_refused_def ex_env_def ex_create_def
      ex_read_def ex_delete_def ex_response_def ex_config_def ex_string_def HasError_def)

subsection \<open>Provider configuration\<close>

lemma Configure_cases:
  "Configure e p req resp calls =
     (let D = Append (Diagnostics resp) (fst (req_ProviderConfig req));
          token = Configure_token e (snd (req_ProviderConfig req))
      in if HasError D then (p, resp\<lparr>Diagnostics := D\<rparr>, calls)
         else if token = [] then
           (p, resp\<lparr>Diagnostics := D @ [\<lparr>Severity = SeverityError,
                  Summary = ''Unable to find put.io token'',
                  Detail = ''Cannot use token as an empty string''\<rparr>]\<rparr>, calls)
         else (case client_ValidateToken e \<lparr>AccessToken = token\<rparr> of
                 Some err \<Rightarrow>
                   (p, resp\<lparr>Diagnostics := D @ [\<lparr>Severity = SeverityError,
                          Summary = ''Unable to create put.io client'', Detail = err\<rparr>]\<rparr>,
                    calls @ [ValidateTokenCall \<lparr>AccessToken = token\<rparr>])
               | None \<Rightarrow>
                   (p\<lparr>client := Some \<lparr>AccessToken = token\<rparr>, configured := True\<rparr>,
                    resp\<lparr>Diagnostics := D\<rparr>,
                    calls @ [ValidateTokenCall \<lparr>AccessToken = token\<rparr>])))"
  by (simp add: Configure_def Let_def case_prod_beta AddError_fresh NewErrorDiagnostic_def
      split: option.splits)

lemma HasError_snoc_error:
  "HasError (D @ [\<lparr>Severity = SeverityError, Summary = s, Detail = d\<rparr>])"
  by (simp add: HasError_def)

text \<open>
  Claim C6. The claim describes what Configure is meant to do, and Configure misses it:
  the token is taken as \<open>data.PutIOOAuthToken.String()\<close>, the framework's quoted
  rendering of the attribute, where every other attribute of the provider is read
  through \<open>.Value\<close>. For a configured value \<open>v\<close> the token is \<open>v\<close> in double quotes,
  never the empty string. With \<open>oauth_token = "abc"\<close> the client is built and validated
  with the five characters of the quoted \<open>abc\<close>; with \<open>oauth_token = ""\<close> the token is
  the two quotation marks, the check for an empty token passes although its comment
  says an empty value must stop execution, and a client is built. The fallback to
  \<open>PUTIO_OAUTH_TOKEN\<close> for a null attribute, and the error for a token that is empty
  after it, are as the claim says.
\<close>

theorem Configure_takes_the_quoted_token:
  "Configure_token e \<lparr>PutIOOAuthToken = \<lparr>Unknown = False, Null = False, Value = v\<rparr>\<rparr>
     = CHR 0x22 # Quote_escapes e v @ [CHR 0x22] \<and>
   Configure_token e \<lparr>PutIOOAuthToken = \<lparr>Unknown = False, Null = False, Value = v\<rparr>\<rparr>
     \<noteq> [] \<and>
   Configure (ex_env (ex_feed 0)) (New ''test'') (ex_provider_config (ex_string ''abc''))
     \<lparr>Diagnostics = []\<rparr> [] =
     ((New ''test'')\<lparr>client := Some \<lparr>AccessToken = CHR 0x22 # ''abc'' @ [CHR 0x22]\<rparr>,
        configured := True\<rparr>,
      \<lparr>Diagnostics = []\<rparr>,
      [ValidateTokenCall \<lparr>AccessToken = CHR 0x22 # ''abc'' @ [CHR 0x22]\<rparr>]) \<and>
   CHR 0x22 # ''abc'' @ [CHR 0x22] \<noteq> ''abc'' \<and>
   Configure (ex_env (ex_feed 0)) (New ''test'') (ex_provider_config (ex_string []))
     \<lparr>Diagnostics = []\<rparr> [] =
     ((New ''test'')\<lparr>client := Some \<lparr>AccessToken = [CHR 0x22, CHR 0x22]\<rparr>,
        configured := True\<rparr>,
      \<lparr>Diagnostics = []\<rparr>,
      [ValidateTokenCall \<lparr>AccessToken = [CHR 0x22, CHR 0x22]\<rparr>]) \<and>
   Configure (ex_env (ex_feed 0)) (New ''test'') (ex_provider_config ex_null_string)
     \<lparr>Diagnostics = []\<rparr> [] =
     ((New ''test'')\<lparr>client := Some \<lparr>AccessToken = ''secret''\<rparr>, configured := True\<rparr>,
      \<lparr>Diagnostics = []\<rparr>,
      [ValidateTokenCall \<lparr>AccessToken = ''secret''\<rparr>]) \<and>
   Configure ex_env_no_variable (New ''test'') (ex_provider_config ex_null_string)
     \<lparr>Diagnostics = []\<rparr> [] =
     (New ''test'',
      \<lparr>Diagnostics = [\<lparr>Severity = SeverityError, Summary = ''Unable to find put.io token'',
         Detail = ''Cannot use token as an empty string''\<rparr>]\<rparr>, [])"
proof -
  have q: "Configure_token e \<lparr>PutIOOAuthToken = \<lparr>Unknown = False, Null = False, Value = v\<rparr>\<rparr>
      = CHR 0x22 # Quote_escapes e v @ [CHR 0x22]"
    by (simp add: Configure_token_def String_String_def Sprintf_q_def)
  have t1: "Configure_token (ex_env (ex_feed 0)) \<lparr>PutIOOAuthToken = ex_string ''abc''\<rparr>
      = CHR 0x22 # ''abc'' @ [CHR 0x22]"
    and t2: "Configure_token (ex_env (ex_feed 0)) \<lparr>PutIOOAuthToken = ex_string []\<rparr>
      = [CHR 0x22, CHR 0x22]"
    and t3: "Configure_token (ex_env (ex_feed 0)) \<lparr>PutIOOAuthToken = ex_null_string\<rparr>
      = ''secret''"
    and t4: "Configure_token ex_env_no_variable \<lparr>PutIOOAuthToken = ex_null_string\<rparr> = []"
    by (simp_all add: Configure_token_def String_String_def Sprintf_q_def ex_string_def
        ex_null_string_def ex_env_def ex_env_no_variable_def os_Getenv_def)
  have v: "\<And>c. client_ValidateToken (ex_env (ex_feed 0)) c = None"
    by (simp add: ex_env_def)
  have s: "\<And>t. snd (req_ProviderConfig (ex_provider_config t)) = \<lparr>PutIOOAuthToken = t\<rparr>"
    "\<And>t. fst (req_ProviderConfig (ex_provider_config t)) = []"
    by (simp_all add: ex_provider_config_def)
  have c1: "Configure (ex_env (ex_feed 0)) (New ''test'') (ex_provider_config (ex_string ''abc''))
     \<lparr>Diagnostics = []\<rparr> [] =
     ((New ''test'')\<lparr>client := Some \<lparr>AccessToken = CHR 0x22 # ''abc'' @ [CHR 0x22]\<rparr>,
        configured := True\<rparr>,
      \<lparr>Diagnostics = []\<rparr>,
      [ValidateTokenCall \<lparr>AccessToken = CHR 0x22 # ''abc'' @ [CHR 0x22]\<rparr>])"
    by (simp add: Configure_cases Let_def s t1 v HasError_def)
  have c2: "Configure (ex_env (ex_feed 0)) (New ''test'') (ex_provider_config (ex_string []))
     \<lparr>Diagnostics = []\<rparr> [] =
     ((New ''test'')\<lparr>client := Some \<lparr>AccessToken = [CHR 0x22, CHR 0x22]\<rparr>,
        configured := True\<rparr>,
      \<lparr>Diagnostics = []\<rparr>,
      [ValidateTokenCall \<lparr>AccessToken = [CHR 0x22, CHR 0x22]\<rparr>])"
    by (simp add: Configure_cases Let_def s t2 v HasError_def)
  have c3: "Configure (ex_env (ex_feed 0)) (New ''test'') (ex_provider_config ex_null_string)
     \<lparr>Diagnostics = []\<rparr> [] =
     ((New ''test'')\<lparr>client := Some \<lparr>AccessToken = ''secret''\<rparr>, configured := True\<rparr>,
      \<lparr>Diagnostics = []\<rparr>,
      [ValidateTokenCall \<lparr>AccessToken = ''secret''\<rparr>])"
    by (simp add: Configure_cases Let_def s t3 v HasError_def)
  have c4: "Configure ex_env_no_variable (New ''test'') (ex_provider_config ex_null_string)
     \<lparr>Diagnostics = []\<rparr> [] =
     (New ''test'',
      \<lparr>Diagnostics = [\<lparr>Severity = SeverityError, Summary = ''Unable to find put.io token'',
         Detail = ''Cannot use token as an empty string''\<rparr>]\<rparr>, [])"
    by (simp add: Configure_cases Let_def s t4 HasError_def)
  have n: "CHR 0x22 # ''abc'' @ [CHR 0x22] \<noteq> ''abc''" by simp
  from q c1 c2 c3 c4 n show ?thesis by simp
qed

text \<open>
  Claim C9. Configure is atomic. On each failure path (the configuration does not
  decode, the token is empty after the fallback, the service rejects the token) the
  provider is returned as it was, client and configured flag included, and an error
  diagnostic is present; more generally whenever Configure returns with an error
  diagnostic the provider is unchanged, so a flag that was false stays false. The
  provider changes only after the token has been validated with no error, and then both
  fields are assigned together.
\<close>

theorem Configure_is_atomic:
  "(HasError (Append (Diagnostics resp) (fst (req_ProviderConfig req))) \<longrightarrow>
      fst (Configure e p req resp calls) = p \<and>
      HasError (Diagnostics (fst (snd (Configure e p req resp calls))))) \<and>
   (Configure_token e (snd (req_ProviderConfig req)) = [] \<longrightarrow>
      fst (Configure e p req resp calls) = p \<and>
      HasError (Diagnostics (fst (snd (Configure e p req resp calls))))) \<and>
   (client_ValidateToken e
      \<lparr>AccessToken = Configure_token e (snd (req_ProviderConfig req))\<rparr> = Some err \<longrightarrow>
      fst (Configure e p req resp calls) = p \<and>
      HasError (Diagnostics (fst (snd (Configure e p req resp calls))))) \<and>
   (HasError (Diagnostics (fst (snd (Configure e p req resp calls)))) \<longrightarrow>
      fst (Configure e p req resp calls) = p) \<and>
   (HasError (Diagnostics (fst (snd (Configure e p req resp calls)))) \<longrightarrow>
    \<not> configured p \<longrightarrow> \<not> configured (fst (Configure e p req resp calls))) \<and>
   (fst (Configure e p req resp calls) \<noteq> p \<longrightarrow>
      Configure_token e (snd (req_ProviderConfig req)) \<noteq> [] \<and>
      client_ValidateToken e
        \<lparr>AccessToken = Configure_token e (snd (req_ProviderConfig req))\<rparr> = None \<and>
      last (snd (snd (Configure e p req resp calls))) =
        ValidateTokenCall \<lparr>AccessToken = Configure_token e (snd (req_ProviderConfig req))\<rparr> \<and>
      fst (Configure e p req resp calls) =
        p\<lparr>client := Some \<lparr>AccessToken = Configure_token e (snd (req_ProviderConfig req))\<rparr>,
          configured := True\<rparr>)"
  by (auto simp: Configure_cases Let_def HasError_snoc_error split: option.splits)

theorem Configure_is_atomic_witness:
  "HasError (Append [] (fst (req_ProviderConfig ex_provider_config_undecoded))) \<and>
   fst (Configure (ex_env (ex_feed 0)) (New ''test'') ex_provider_config_undecoded
     \<lparr>Diagnostics = []\<rparr> []) = New ''test'' \<and>
   Configure_token ex_env_no_variable
     (snd (req_ProviderConfig (ex_provider_config ex_null_string))) = [] \<and>
   fst (Configure ex_env_no_variable (New ''test'') (ex_provider_config ex_null_string)
     \<lparr>Diagnostics = []\<rparr> []) = New ''test'' \<and>
   client_ValidateToken (ex_env_invalid_token ''401'')
     \<lparr>AccessToken = Configure_token (ex_env_invalid_token ''401'')
        (snd (req_ProviderConfig (ex_provider_config (ex_string ''abc''))))\<rparr> = Some ''401'' \<and>
   fst (Configure (ex_env_invalid_token ''401'') (New ''test'')
     (ex_provider_config (ex_string ''abc'')) \<lparr>Diagnostics = []\<rparr> []) = New ''test'' \<and>
   configured (New ''test'') = False \<and>
   fst (Configure (ex_env (ex_feed 0)) (New ''test'') (ex_provider_config (ex_string ''abc''))
     \<lparr>Diagnostics = []\<rparr> []) \<noteq> New ''test''"
proof -
  let ?r = "\<lparr>Diagnostics = []\<rparr> :: Response"
  have h1: "HasError (Append (Diagnostics ?r) (fst (req_ProviderConfig ex_provider_config_undecoded)))"
    by (simp add: ex_provider_config_undecoded_def HasError_def conversion_error_def
        NewErrorDiagnostic_def)
  have h2: "Configure_token ex_env_no_variable
       (snd (req_ProviderConfig (ex_provider_config ex_null_string))) = []"
    by (simp add: Configure_token_def ex_provider_config_def ex_null_string_def
        ex_env_no_variable_def ex_env_def os_Getenv_def)
  have h3: "client_ValidateToken (ex_env_invalid_token ''401'')
       \<lparr>AccessToken = Configure_token (ex_env_invalid_token ''401'')
          (snd (req_ProviderConfig (ex_provider_config (ex_string ''abc''))))\<rparr> = Some ''401''"
    by (simp add: ex_env_invalid_token_def)
  from h1 Configure_is_atomic [where e = "ex_env (ex_feed 0)" and p = "New ''test''"
      and req = ex_provider_config_undecoded and resp = ?r and calls = "[]"]
  have a: "fst (Configure (ex_env (ex_feed 0)) (New ''test'') ex_provider_config_undecoded ?r [])
      = New ''test''"
    by blast
  from h2 Configure_is_atomic [where e = ex_env_no_variable and p = "New ''test''"
      and req = "ex_provider_config ex_null_string" and resp = ?r and calls = "[]"]
  have b: "fst (Configure ex_env_no_variable (New ''test'') (ex_provider_config ex_null_string)
     ?r []) = New ''test''"
    by blast
  from h3 Configure_is_atomic [where e = "ex_env_invalid_token ''401''" and p = "New ''test''"
      and req = "ex_provider_config (ex_string ''abc'')" and err = "''401''"
      and resp = ?r and calls = "[]"]
  have c: "fst (Configure (ex_env_invalid_token ''401'') (New ''test'')
     (ex_provider_config (ex_string ''abc'')) ?r []) = New ''test''"
    by blast
  have d: "fst (Configure (ex_env (ex_feed 0)) (New ''test'') (ex_provider_config (ex_string ''abc''))
     ?r []) \<noteq> New ''test''"
    by (simp add: Configure_cases Let_def Configure_token_def String_String_def
        Sprintf_q_def ex_provider_config_def ex_string_def ex_env_def HasError_def New_def)
  from a b c d h1 h2 h3 show ?thesis by (simp add: New_def)
qed

subsection \<open>Defaults at plan time and after Create\<close>

lemma int64_Modify_null:
  "req_AttributePlan req = Int64Value v \<Longrightarrow> Null v \<Longrightarrow>
   int64DefaultModifier_Modify m req resp =
     resp\<lparr>AttributePlan := Int64Value \<lparr>Unknown = False, Null = False, Value = Default m\<rparr>\<rparr>"
  by (simp add: int64DefaultModifier_Modify_def ValueAs_Int64_def HasError_def)

lemma int64_Modify_not_null:
  "req_AttributePlan req = Int64Value v \<Longrightarrow> \<not> Null v \<Longrightarrow>
   int64DefaultModifier_Modify m req resp = resp"
  by (simp add: int64DefaultModifier_Modify_def ValueAs_Int64_def HasError_def)

lemma bool_Modify_null:
  "req_AttributePlan req = BoolValue v \<Longrightarrow> Null v \<Longrightarrow>
   boolDefaultModifier_Modify m req resp =
     resp\<lparr>AttributePlan := BoolValue \<lparr>Unknown = False, Null = False, Value = Default m\<rparr>\<rparr>"
  by (simp add: boolDefaultModifier_Modify_def ValueAs_Bool_def HasError_def)

lemma bool_Modify_not_null:
  "req_AttributePlan req = BoolValue v \<Longrightarrow> \<not> Null v \<Longrightarrow>
   boolDefaultModifier_Modify m req resp = resp"
  by (simp add: boolDefaultModifier_Modify_def ValueAs_Bool_def HasError_def)

lemma string_Modify_null:
  "req_AttributePlan req = StringValue v \<Longrightarrow> Null v \<Longrightarrow>
   stringDefaultModifier_Modify m req resp =
     resp\<lparr>AttributePlan := StringValue \<lparr>Unknown = False, Null = False, Value = Default m\<rparr>\<rparr>"
  by (simp add: stringDefaultModifier_Modify_def ValueAs_String_def HasError_def)

lemma string_Modify_not_null:
  "req_AttributePlan req = StringValue v \<Longrightarrow> \<not> Null v \<Longrightarrow>
   stringDefaultModifier_Modify m req resp = resp"
  by (simp add: stringDefaultModifier_Modify_def ValueAs_String_def HasError_def)

lemma declared_defaults:
  "Default parent_dir_id_default = 0" "Default delete_old_files_default = False"
  "Default unwanted_keywords_default = []" "Default paused_default = False"
  by (simp_all add: parent_dir_id_default_def delete_old_files_default_def
      unwanted_keywords_default_def paused_default_def In64Default_def BoolDefault_def
      StringDefault_def)

text \<open>
  Claim C1, as stated, does not hold in what it says of an omitted attribute. The
  acceptance test's configuration omits \<open>parent_dir_id\<close>. Handed a planned value that is
  null, the modifier plans the default 0. Handed the planned value of an attribute that
  the configuration omits (null there) but that is unknown in the plan, the modifier
  returns it as it is: the planned value is unknown, not the default. And when the
  service answers the create call with a feed whose \<open>parent_dir_id\<close> is 7, Create
  succeeds and the persisted value is 7, not the default: Create stores what the
  service returned.
\<close>

theorem persisted_default_counterexample:
  "Null (ParentDirID (snd (req_Config ex_create))) \<and>
   AttributePlan (int64DefaultModifier_Modify parent_dir_id_default
     (ex_plan (Int64Value (ParentDirID (snd (req_Config ex_create)))))
     (ex_modify_response (ex_plan (Int64Value (ParentDirID (snd (req_Config ex_create)))))))
     = Int64Value \<lparr>Unknown = False, Null = False, Value = 0\<rparr> \<and>
   Default parent_dir_id_default = 0 \<and>
   req_AttributeConfig ex_unknown_plan =
     Int64Value \<lparr>Unknown = False, Null = True, Value = 0\<rparr> \<and>
   AttributePlan (int64DefaultModifier_Modify parent_dir_id_default ex_unknown_plan
     (ex_modify_response ex_unknown_plan))
     = Int64Value \<lparr>Unknown = True, Null = False, Value = 0\<rparr> \<and>
   \<not> HasError (Diagnostics (fst (Create (ex_env (ex_feed 7)) ex_resource ex_create ex_response []))) \<and>
   map_option ParentDirID
     (State (fst (Create (ex_env (ex_feed 7)) ex_resource ex_create ex_response [])))
     = Some \<lparr>Unknown = False, Null = False, Value = 7\<rparr> \<and>
   (7 :: go_int) \<noteq> 0"
proof -
  have n: "Null (ParentDirID (snd (req_Config ex_create)))"
    by (simp add: ex_create_def ex_config_def)
  have p: "AttributePlan (int64DefaultModifier_Modify parent_dir_id_default
     (ex_plan (Int64Value (ParentDirID (snd (req_Config ex_create)))))
     (ex_modify_response (ex_plan (Int64Value (ParentDirID (snd (req_Config ex_create)))))))
     = Int64Value \<lparr>Unknown = False, Null = False, Value = 0\<rparr>"
    using n by (simp add: int64_Modify_null [where v = "ParentDirID (snd (req_Config ex_create))"]
        ex_plan_def declared_defaults)
  have c: "req_AttributeConfig ex_unknown_plan =
     Int64Value \<lparr>Unknown = False, Null = True, Value = 0\<rparr>"
    by (simp add: ex_unknown_plan_def)
  have u: "AttributePlan (int64DefaultModifier_Modify parent_dir_id_default ex_unknown_plan
     (ex_modify_response ex_unknown_plan))
     = Int64Value \<lparr>Unknown = True, Null = False, Value = 0\<rparr>"
    by (simp add: int64_Modify_not_null
          [where v = "\<lparr>Unknown = True, Null = False, Value = 0\<rparr>"]
        ex_unknown_plan_def ex_modify_response_def)
  have s: "\<not> HasError (Diagnostics (fst (Create (ex_env (ex_feed 7)) ex_resource ex_create ex_response [])))"
    "map_option ParentDirID
       (State (fst (Create (ex_env (ex_feed 7)) ex_resource ex_create ex_response [])))
       = Some \<lparr>Unknown = False, Null = False, Value = 7\<rparr>"
    by (simp_all add: ex_Create_run HasError_def Create_assign_eq) (simp add: ex_feed_def)
  from n p c u s show ?thesis by (simp add: declared_defaults)
qed

text \<open>
  Claim C1, amended. For each optional attribute with a declared default D
  (parent_dir_id 0, delete_old_files false, unwanted_keywords the empty string, paused
  false), the default modifier invoked on a planned value that is null replaces the
  planned value with the known value D, and invoked on a planned value that is not null
  returns the response it was given. The value persisted after a successful Create is
  the value of that field in the feed the service returned: it equals D whenever the
  service returns D for it.
\<close>

theorem defaults_at_plan_time_and_after_create:
  "(req_AttributePlan req = Int64Value i \<longrightarrow> Null i \<longrightarrow>
      int64DefaultModifier_Modify mi req resp =
        resp\<lparr>AttributePlan :=
          Int64Value \<lparr>Unknown = False, Null = False, Value = Default mi\<rparr>\<rparr>) \<and>
   (req_AttributePlan req = Int64Value i \<longrightarrow> \<not> Null i \<longrightarrow>
      int64DefaultModifier_Modify mi req resp = resp) \<and>
   (req_AttributePlan req = BoolValue b \<longrightarrow> Null b \<longrightarrow>
      boolDefaultModifier_Modify mb req resp =
        resp\<lparr>AttributePlan :=
          BoolValue \<lparr>Unknown = False, Null = False, Value = Default mb\<rparr>\<rparr>) \<and>
   (req_AttributePlan req = BoolValue b \<longrightarrow> \<not> Null b \<longrightarrow>
      boolDefaultModifier_Modify mb req resp = resp) \<and>
   (req_AttributePlan req = StringValue s \<longrightarrow> Null s \<longrightarrow>
      stringDefaultModifier_Modify ms req resp =
        resp\<lparr>AttributePlan :=
          StringValue \<lparr>Unknown = False, Null = False, Value = Default ms\<rparr>\<rparr>) \<and>
   (req_AttributePlan req = StringValue s \<longrightarrow> \<not> Null s \<longrightarrow>
      stringDefaultModifier_Modify ms req resp = resp) \<and>
   Default parent_dir_id_default = 0 \<and>
   Default delete_old_files_default = False \<and>
   Default unwanted_keywords_default = [] \<and>
   Default paused_default = False \<and>
   (Create e r creq cresp calls = (cresp', calls') \<longrightarrow> \<not> HasError (Diagnostics cresp') \<longrightarrow>
      (\<exists>request createdFeed.
         last calls' = DoCall request \<and>
         client_Do e (client (provider r)) request = Inr createdFeed \<and>
         map_option ParentDirID (State cresp') =
           Some \<lparr>Unknown = False, Null = False,
                 Value = Feed_ParentDirID (Feed createdFeed)\<rparr> \<and>
         map_option DeleteOldFiles (State cresp') =
           Some \<lparr>Unknown = False, Null = False,
                 Value = Feed_DeleteOldFiles (Feed createdFeed)\<rparr> \<and>
         map_option UnwantedKeywords (State cresp') =
           Some \<lparr>Unknown = False, Null = False,
                 Value = Feed_UnwantedKeywords (Feed createdFeed)\<rparr> \<and>
         map_option Paused (State cresp') =
           Some \<lparr>Unknown = False, Null = False, Value = Feed_Paused (Feed createdFeed)\<rparr>))"
proof -
  have c: "\<exists>request createdFeed.
         last calls' = DoCall request \<and>
         client_Do e (client (provider r)) request = Inr createdFeed \<and>
         map_option ParentDirID (State cresp') =
           Some \<lparr>Unknown = False, Null = False,
                 Value = Feed_ParentDirID (Feed createdFeed)\<rparr> \<and>
         map_option DeleteOldFiles (State cresp') =
           Some \<lparr>Unknown = False, Null = False,
                 Value = Feed_DeleteOldFiles (Feed createdFeed)\<rparr> \<and>
         map_option UnwantedKeywords (State cresp') =
           Some \<lparr>Unknown = False, Null = False,
                 Value = Feed_UnwantedKeywords (Feed createdFeed)\<rparr> \<and>
         map_option Paused (State cresp') =
           Some \<lparr>Unknown = False, Null = False, Value = Feed_Paused (Feed createdFeed)\<rparr>"
    if "Create e r creq cresp calls = (cresp', calls')" "\<not> HasError (Diagnostics cresp')"
    using Create_success [OF that] by (auto simp: Create_assign_eq)
  show ?thesis
    using c int64_Modify_null [of req i mi resp] int64_Modify_not_null [of req i mi resp]
      bool_Modify_null [of req b mb resp] bool_Modify_not_null [of req b mb resp]
      string_Modify_null [of req s ms resp] string_Modify_not_null [of req s ms resp]
      declared_defaults
    by blast
qed

theorem defaults_at_plan_time_and_after_create_witness:
  "AttributePlan (int64DefaultModifier_Modify parent_dir_id_default
     (ex_plan (Int64Value \<lparr>Unknown = False, Null = True, Value = 0\<rparr>))
     (ex_modify_response (ex_plan (Int64Value \<lparr>Unknown = False, Null = True, Value = 0\<rparr>))))
     = Int64Value \<lparr>Unknown = False, Null = False, Value = 0\<rparr> \<and>
   AttributePlan (int64DefaultModifier_Modify parent_dir_id_default
     (ex_plan (Int64Value \<lparr>Unknown = False, Null = False, Value = 5\<rparr>))
     (ex_modify_response (ex_plan (Int64Value \<lparr>Unknown = False, Null = False, Value = 5\<rparr>))))
     = Int64Value \<lparr>Unknown = False, Null = False, Value = 5\<rparr> \<and>
   AttributePlan (boolDefaultModifier_Modify paused_default
     (ex_plan (BoolValue \<lparr>Unknown = False, Null = True, Value = False\<rparr>))
     (ex_modify_response (ex_plan (BoolValue \<lparr>Unknown = False, Null = True, Value = False\<rparr>))))
     = BoolValue \<lparr>Unknown = False, Null = False, Value = False\<rparr> \<and>
   AttributePlan (boolDefaultModifier_Modify delete_old_files_default
     (ex_plan (BoolValue \<lparr>Unknown = False, Null = False, Value = True\<rparr>))
     (ex_modify_response (ex_plan (BoolValue \<lparr>Unknown = False, Null = False, Value = True\<rparr>))))
     = BoolValue \<lparr>Unknown = False, Null = False, Value = True\<rparr> \<and>
   AttributePlan (stringDefaultModifier_Modify unwanted_keywords_default
     (ex_plan (StringValue \<lparr>Unknown = False, Null = True, Value = []\<rparr>))
     (ex_modify_response (ex_plan (StringValue \<lparr>Unknown = False, Null = True, Value = []\<rparr>))))
     = StringValue \<lparr>Unknown = False, Null = False, Value = []\<rparr> \<and>
   AttributePlan (stringDefaultModifier_Modify unwanted_keywords_default
     (ex_plan (StringValue \<lparr>Unknown = False, Null = False, Value = ''x''\<rparr>))
     (ex_modify_response (ex_plan (StringValue \<lparr>Unknown = False, Null = False, Value = ''x''\<rparr>))))
     = StringValue \<lparr>Unknown = False, Null = False, Value = ''x''\<rparr> \<and>
   \<not> HasError (Diagnostics (fst (Create (ex_env (ex_feed 0)) ex_resource ex_create ex_response []))) \<and>
   map_option ParentDirID
     (State (fst (Create (ex_env (ex_feed 0)) ex_resource ex_create ex_response [])))
     = Some \<lparr>Unknown = False, Null = False, Value = 0\<rparr>"
proof -
  have p: "\<And>v. req_AttributePlan (ex_plan v) = v"
    "\<And>v. AttributePlan (ex_modify_response (ex_plan v)) = v"
    by (simp_all add: ex_plan_def ex_modify_response_def)
  note t = defaults_at_plan_time_and_after_create
  have a: "int64DefaultModifier_Modify parent_dir_id_default
      (ex_plan (Int64Value \<lparr>Unknown = False, Null = True, Value = 0\<rparr>))
      (ex_modify_response (ex_plan (Int64Value \<lparr>Unknown = False, Null = True, Value = 0\<rparr>))) =
      (ex_modify_response (ex_plan (Int64Value \<lparr>Unknown = False, Null = True, Value = 0\<rparr>)))
        \<lparr>AttributePlan := Int64Value \<lparr>Unknown = False, Null = False,
           Value = Default parent_dir_id_default\<rparr>\<rparr>"
    using t [where req = "ex_plan (Int64Value \<lparr>Unknown = False, Null = True, Value = 0\<rparr>)"
        and i = "\<lparr>Unknown = False, Null = True, Value = 0\<rparr>" and mi = parent_dir_id_default]
    by (simp add: p)
  have b: "int64DefaultModifier_Modify parent_dir_id_default
      (ex_plan (Int64Value \<lparr>Unknown = False, Null = False, Value = 5\<rparr>))
      (ex_modify_response (ex_plan (Int64Value \<lparr>Unknown = False, Null = False, Value = 5\<rparr>))) =
      ex_modify_response (ex_plan (Int64Value \<lparr>Unknown = False, Null = False, Value = 5\<rparr>))"
    using t [where req = "ex_plan (Int64Value \<lparr>Unknown = False, Null = False, Value = 5\<rparr>)"
        and i = "\<lparr>Unknown = False, Null = False, Value = 5\<rparr>" and mi = parent_dir_id_default]
    by (simp add: p)
  have c: "boolDefaultModifier_Modify paused_default
      (ex_plan (BoolValue \<lparr>Unknown = False, Null = True, Value = False\<rparr>))
      (ex_modify_response (ex_plan (BoolValue \<lparr>Unknown = False, Null = True, Value = False\<rparr>))) =
      (ex_modify_response (ex_plan (BoolValue \<lparr>Unknown = False, Null = True, Value = False\<rparr>)))
        \<lparr>AttributePlan := BoolValue \<lparr>Unknown = False, Null = False,
           Value = Default paused_default\<rparr>\<rparr>"
    using t [where req = "ex_plan (BoolValue \<lparr>Unknown = False, Null = True, Value = False\<rparr>)"
        and b = "\<lparr>Unknown = False, Null = True, Value = False\<rparr>" and mb = paused_default]
    by (simp add: p)
  have d: "boolDefaultModifier_Modify delete_old_files_default
      (ex_plan (BoolValue \<lparr>Unknown = False, Null = False, Value = True\<rparr>))
      (ex_modify_response (ex_plan (BoolValue \<lparr>Unknown = False, Null = False, Value = True\<rparr>))) =
      ex_modify_response (ex_plan (BoolValue \<lparr>Unknown = False, Null = False, Value = True\<rparr>))"
    using t [where req = "ex_plan (BoolValue \<lparr>Unknown = False, Null = False, Value = True\<rparr>)"
        and b = "\<lparr>Unknown = False, Null = False, Value = True\<rparr>"
        and mb = delete_old_files_default]
    by (simp add: p)
  have e: "stringDefaultModifier_Modify unwanted_keywords_default
      (ex_plan (StringValue \<lparr>Unknown = False, Null = True, Value = []\<rparr>))
      (ex_modify_response (ex_plan (StringValue \<lparr>Unknown = False, Null = True, Value = []\<rparr>))) =
      (ex_modify_response (ex_plan (StringValue \<lparr>Unknown = False, Null = True, Value = []\<rparr>)))
        \<lparr>AttributePlan := StringValue \<lparr>Unknown = False, Null = False,
           Value = Default unwanted_keywords_default\<rparr>\<rparr>"
    using t [where req = "ex_plan (StringValue \<lparr>Unknown = False, Null = True, Value = []\<rparr>)"
        and s = "\<lparr>Unknown = False, Null = True, Value = []\<rparr>"
        and ms = unwanted_keywords_default]
    by (simp add: p)
  have f: "stringDefaultModifier_Modify unwanted_keywords_default
      (ex_plan (StringValue \<lparr>Unknown = False, Null = False, Value = ''x''\<rparr>))
      (ex_modify_response (ex_plan (StringValue \<lparr>Unknown = False, Null = False, Value = ''x''\<rparr>))) =
      ex_modify_response (ex_plan (StringValue \<lparr>Unknown = False, Null = False, Value = ''x''\<rparr>))"
    using t [where req = "ex_plan (StringValue \<lparr>Unknown = False, Null = False, Value = ''x''\<rparr>)"
        and s = "\<lparr>Unknown = False, Null = False, Value = ''x''\<rparr>"
        and ms = unwanted_keywords_default]
    by (simp add: p)
  have g: "\<not> HasError (Diagnostics (fst (Create (ex_env (ex_feed 0)) ex_resource ex_create ex_response [])))"
    "map_option ParentDirID
       (State (fst (Create (ex_env (ex_feed 0)) ex_resource ex_create ex_response [])))
       = Some \<lparr>Unknown = False, Null = False, Value = 0\<rparr>"
    by (simp_all add: ex_Create_run HasError_def Create_assign_eq) (simp add: ex_feed_def)
  show ?thesis
    unfolding a b c d e f using g by (simp add: p declared_defaults)
qed

end
